theory Spec2Isabelle
  imports Main
begin

section \<open>Values of the Python program\<close>

text \<open>
  The bot (\<^verbatim>\<open>sorare_bot.py\<close>) reads JSON documents decoded by \<^verbatim>\<open>requests\<close> and
  \<^verbatim>\<open>gql\<close>. A decoded document is a Python value built from \<^verbatim>\<open>None\<close>, booleans,
  integers, strings, lists and dictionaries with string keys. A dictionary is the list of
  its items in insertion order. Text is a \<open>string\<close> holding the UTF-8 bytes of the
  Python \<^verbatim>\<open>str\<close>, so that concatenation of Python strings is \<open>@\<close>.
  Floating point numbers of a document behave like integers under every operation the
  bot applies (truth value, \<^verbatim>\<open>.get\<close>, subscription, iteration) and are left out.
\<close>

datatype json =
    JNull
  | JBool bool
  | JNum int
  | JStr string
  | JList "json list"
  | JObj "(string \<times> json) list"

datatype py_type = NoneType | Bool_type | Int_type | Str_type | List_type | Dict_type

fun py_type_of :: "json \<Rightarrow> py_type" where
  "py_type_of JNull = NoneType"
| "py_type_of (JBool b) = Bool_type"
| "py_type_of (JNum n) = Int_type"
| "py_type_of (JStr s) = Str_type"
| "py_type_of (JList xs) = List_type"
| "py_type_of (JObj kvs) = Dict_type"

text \<open>
  Every exception the bot can meet is an instance of Python's \<^verbatim>\<open>Exception\<close>, so every
  \<^verbatim>\<open>except Exception\<close> clause catches all of them. \<open>Exception\<close> is the bot's own
  \<^verbatim>\<open>raise Exception(msg)\<close>; \<open>LibraryError\<close> is an exception raised inside
  \<^verbatim>\<open>requests\<close>, \<^verbatim>\<open>gql\<close> or \<^verbatim>\<open>bcrypt\<close>, with its text; the others are raised by
  the interpreter, and carry the missing key, or the type of the offending object and the
  attribute or operation that it lacks.
\<close>

datatype py_exception =
    Exception string
  | LibraryError string
  | KeyError json
  | IndexError py_type
  | AttributeError py_type string
  | TypeError py_type string

type_synonym 'a result = "py_exception + 'a"

definition bindR :: "'a result \<Rightarrow> ('a \<Rightarrow> 'b result) \<Rightarrow> 'b result" where
  "bindR r f = (case r of Inl e \<Rightarrow> Inl e | Inr x \<Rightarrow> f x)"

text \<open>Python's truth value of an object, as \<^verbatim>\<open>if x\<close> and \<^verbatim>\<open>not x\<close> test it.\<close>

fun truthy :: "json \<Rightarrow> bool" where
  "truthy JNull = False"
| "truthy (JBool b) = b"
| "truthy (JNum n) = (n \<noteq> 0)"
| "truthy (JStr s) = (s \<noteq> [])"
| "truthy (JList xs) = (xs \<noteq> [])"
| "truthy (JObj kvs) = (kvs \<noteq> [])"

text \<open>\<^verbatim>\<open>obj.get(key, default)\<close>: only a dictionary has the method.\<close>

fun dict_get :: "json \<Rightarrow> string \<Rightarrow> json \<Rightarrow> json result" where
  "dict_get (JObj kvs) k d = Inr (case map_of kvs k of Some v \<Rightarrow> v | None \<Rightarrow> d)"
| "dict_get v k d = Inl (AttributeError (py_type_of v) ''get'')"

text \<open>\<^verbatim>\<open>obj[key]\<close> for a string key: a dictionary looks the key up, anything else raises.\<close>

fun subscript :: "json \<Rightarrow> string \<Rightarrow> json result" where
  "subscript (JObj kvs) k = (case map_of kvs k of Some v \<Rightarrow> Inr v | None \<Rightarrow> Inl (KeyError (JStr k)))"
| "subscript v k = Inl (TypeError (py_type_of v) ''subscript'')"

text \<open>
  The characters (code points) of a text: a byte \<open>10xxxxxx\<close> continues the character
  that the nearest earlier byte started.
\<close>

definition is_continuation :: "char \<Rightarrow> bool" where
  "is_continuation c = (128 \<le> (of_char c :: nat) \<and> (of_char c :: nat) < 192)"

fun utf8_chars :: "string \<Rightarrow> string list" where
  "utf8_chars [] = []"
| "utf8_chars (c # cs) =
     (case utf8_chars cs of
        [] \<Rightarrow> [[c]]
      | (g # gs) \<Rightarrow>
          (case g of
             [] \<Rightarrow> [c] # g # gs
           | d # ds \<Rightarrow> if is_continuation d then (c # g) # gs else [c] # g # gs))"

text \<open>
  \<^verbatim>\<open>obj[0]\<close>: the first element of a list, the first character of a string; a dictionary
  decoded from JSON has no key \<^verbatim>\<open>0\<close>.
\<close>

fun subscript0 :: "json \<Rightarrow> json result" where
  "subscript0 (JList []) = Inl (IndexError List_type)"
| "subscript0 (JList (x # xs)) = Inr x"
| "subscript0 (JStr s) =
     (case utf8_chars s of [] \<Rightarrow> Inl (IndexError Str_type) | c # cs \<Rightarrow> Inr (JStr c))"
| "subscript0 (JObj kvs) = Inl (KeyError (JNum 0))"
| "subscript0 v = Inl (TypeError (py_type_of v) ''subscript'')"

text \<open>
  \<^verbatim>\<open>for x in obj\<close>: a list yields its elements, a dictionary its keys, a string its
  characters; nothing else is iterable.
\<close>

fun py_iter :: "json \<Rightarrow> json list result" where
  "py_iter (JList xs) = Inr xs"
| "py_iter (JObj kvs) = Inr (map (\<lambda>kv. JStr (fst kv)) kvs)"
| "py_iter (JStr s) = Inr (map JStr (utf8_chars s))"
| "py_iter v = Inl (TypeError (py_type_of v) ''iter'')"

section \<open>The bot, its effects and its environment\<close>

text \<open>
  The authenticated \<^verbatim>\<open>gql\<close> client that \<^verbatim>\<open>_authenticate\<close> builds: its transport's
  \<^verbatim>\<open>Authorization\<close> and \<^verbatim>\<open>JWT-AUD\<close> headers.
\<close>

datatype session = Session (authorization: string) (jwt_aud: string)

text \<open>
  What the bot does to the outside world, in order. \<open>Enter_fetch_listings\<close> is a marker
  and no effect of its own: it records that \<^verbatim>\<open>_fetch_listings\<close> was called, and the value
  of \<^verbatim>\<open>self.client\<close> at that moment.
\<close>

datatype event =
    Http_get string
  | Sign_in "string option" string
  | Listings_query session
  | Http_post "string option" json nat
  | Print string
  | Sleep nat
  | Enter_fetch_listings "session option"

text \<open>
  The object \<^verbatim>\<open>SorareBot\<close>: the three credentials (\<^verbatim>\<open>os.getenv\<close> gives \<^verbatim>\<open>None\<close> for a
  variable that is not set) and the client, together with the history of effects.
\<close>

record sorare_bot =
  email :: "string option"
  password :: "string option"
  webhook :: "string option"
  client :: "session option"
  effects :: "event list"

datatype http_result =
    Get_raises string
  | Get_response nat "string + json"

datatype post_result =
    Post_raises string
  | Post_response nat

text \<open>
  Everything the source does not decide. Each answer of the outside world is a function of
  the history up to and including the request: \<open>Get_raises\<close> and \<open>Post_raises\<close> are
  \<^verbatim>\<open>requests\<close> raising (connection error, timeout, invalid URL) with the exception's
  text; \<open>Get_response status body\<close> is a response whose body is a JSON document
  (\<open>Inr\<close>) or not (\<open>Inl\<close>, the decoder's error text); \<^verbatim>\<open>Client.execute\<close> raises
  (\<open>Inl\<close>) or returns the decoded data (\<open>Inr\<close>). \<open>hashpw p s\<close> is
  \<^verbatim>\<open>bcrypt.hashpw(p.encode(), s.encode()).decode("utf-8")\<close> for two strings, which
  raises on a salt that bcrypt rejects. \<open>repr\<close> is Python's text of an object that is
  not a string, \<open>builtin_text\<close> is \<^verbatim>\<open>str(e)\<close> of an exception raised by the
  interpreter, \<open>status_error_text\<close> the text of the \<^verbatim>\<open>HTTPError\<close> of a status and URL.
\<close>

record environment =
  salt_response :: "event list \<Rightarrow> http_result"
  signin_response :: "event list \<Rightarrow> string + json"
  listings_response :: "event list \<Rightarrow> string + json"
  webhook_response :: "event list \<Rightarrow> post_result"
  hashpw :: "string \<Rightarrow> string \<Rightarrow> string + string"
  repr :: "json \<Rightarrow> string"
  builtin_text :: "py_exception \<Rightarrow> string"
  status_error_text :: "nat \<Rightarrow> string \<Rightarrow> string"

text \<open>\<^verbatim>\<open>str(e)\<close> and the formatting of a value inside an f-string.\<close>

definition exc_str :: "environment \<Rightarrow> py_exception \<Rightarrow> string" where
  "exc_str env e =
     (case e of Exception m \<Rightarrow> m | LibraryError m \<Rightarrow> m | _ \<Rightarrow> builtin_text env e)"

definition py_format :: "environment \<Rightarrow> json \<Rightarrow> string" where
  "py_format env v = (case v of JStr s \<Rightarrow> s | _ \<Rightarrow> repr env v)"

definition format_opt :: "string option \<Rightarrow> string" where
  "format_opt s = (case s of None \<Rightarrow> ''None'' | Some t \<Rightarrow> t)"

text \<open>The emoji of the messages, as UTF-8 bytes, and the line feed.\<close>

definition warning_sign :: string where
  "warning_sign = [CHR 0xE2, CHR 0x9A, CHR 0xA0, CHR 0xEF, CHR 0xB8, CHR 0x8F]"

definition green_circle :: string where
  "green_circle = [CHR 0xF0, CHR 0x9F, CHR 0x9F, CHR 0xA2]"

definition red_circle :: string where
  "red_circle = [CHR 0xF0, CHR 0x9F, CHR 0x94, CHR 0xB4]"

definition soccer_ball :: string where
  "soccer_ball = [CHR 0xE2, CHR 0x9A, CHR 0xBD]"

definition money_bag :: string where
  "money_bag = [CHR 0xF0, CHR 0x9F, CHR 0x92, CHR 0xB0]"

definition link_sign :: string where
  "link_sign = [CHR 0xF0, CHR 0x9F, CHR 0x94, CHR 0x97]"

definition newline :: string where
  "newline = [CHR 0x0A]"

subsection \<open>Actions: state passing with exceptions\<close>

type_synonym 'a action = "sorare_bot \<Rightarrow> 'a result \<times> sorare_bot"

definition returnA :: "'a \<Rightarrow> 'a action" where
  "returnA x b = (Inr x, b)"

definition liftR :: "'a result \<Rightarrow> 'a action" where
  "liftR r b = (r, b)"

definition bindA :: "'a action \<Rightarrow> ('a \<Rightarrow> 'b action) \<Rightarrow> 'b action" where
  "bindA m f b = (case m b of (Inl e, b1) \<Rightarrow> (Inl e, b1) | (Inr x, b1) \<Rightarrow> f x b1)"

text \<open>\<^verbatim>\<open>try: m  except Exception as e: handler(e)\<close>.\<close>

definition try_except :: "'a action \<Rightarrow> (py_exception \<Rightarrow> 'a action) \<Rightarrow> 'a action" where
  "try_except m handler b = (case m b of (Inl e, b1) \<Rightarrow> handler e b1 | (Inr x, b1) \<Rightarrow> (Inr x, b1))"

definition emit :: "event \<Rightarrow> sorare_bot \<Rightarrow> sorare_bot" where
  "emit ev b = b\<lparr>effects := effects b @ [ev]\<rparr>"

text \<open>\<^verbatim>\<open>print\<close> and \<^verbatim>\<open>time.sleep\<close> return normally.\<close>

definition py_print :: "string \<Rightarrow> unit action" where
  "py_print s b = (Inr (), emit (Print s) b)"

definition time_sleep :: "nat \<Rightarrow> unit action" where
  "time_sleep n b = (Inr (), emit (Sleep n) b)"

section \<open>The program\<close>

text \<open>\<^verbatim>\<open>SorareBot.__init__\<close>: the credentials come from the process environment, no client yet.\<close>

definition sorare_bot_init :: "string option \<Rightarrow> string option \<Rightarrow> string option \<Rightarrow> sorare_bot" where
  "sorare_bot_init em pw wh =
     \<lparr>email = em, password = pw, webhook = wh, client = None, effects = []\<rparr>"

subsection \<open>\<^verbatim>\<open>_get_salt\<close>\<close>

definition requests_get :: "environment \<Rightarrow> string \<Rightarrow> (nat \<times> (string + json)) action" where
  "requests_get env url b =
     (let b1 = emit (Http_get url) b in
      case salt_response env (effects b1) of
        Get_raises m \<Rightarrow> (Inl (LibraryError m), b1)
      | Get_response status body \<Rightarrow> (Inr (status, body), b1))"

text \<open>\<^verbatim>\<open>Response.raise_for_status\<close> of \<^verbatim>\<open>requests\<close> raises for the statuses 400 to 599.\<close>

definition raise_for_status :: "environment \<Rightarrow> string \<Rightarrow> nat \<Rightarrow> unit result" where
  "raise_for_status env url status =
     (if 400 \<le> status \<and> status < 600
      then Inl (LibraryError (status_error_text env status url))
      else Inr ())"

definition response_json :: "string + json \<Rightarrow> json result" where
  "response_json body = (case body of Inl m \<Rightarrow> Inl (LibraryError m) | Inr doc \<Rightarrow> Inr doc)"

text \<open>The f-string of the request: \<^verbatim>\<open>None\<close> is formatted as its name.\<close>

definition users_url :: "sorare_bot \<Rightarrow> string" where
  "users_url b = ''https://api.sorare.com/api/v1/users/'' @ format_opt (email b)"

definition get_salt :: "environment \<Rightarrow> json action" where
  "get_salt env b =
     (let url = users_url b in
      try_except
        (bindA (requests_get env url) (\<lambda>response.
           liftR (bindR (raise_for_status env url (fst response)) (\<lambda>u.
                  bindR (response_json (snd response)) (\<lambda>doc.
                  dict_get doc ''salt'' JNull)))))
        (\<lambda>e. bindA (py_print (warning_sign @ '' Error getting salt: '' @ exc_str env e)) (\<lambda>u.
             returnA JNull))
        b)"

subsection \<open>\<^verbatim>\<open>_authenticate\<close>\<close>

text \<open>
  \<^verbatim>\<open>bcrypt.hashpw(self.password.encode(), salt.encode()).decode("utf-8")\<close>: the arguments
  are evaluated from left to right, and only a string has \<^verbatim>\<open>encode\<close>.
\<close>

definition hashed_password :: "environment \<Rightarrow> string option \<Rightarrow> json \<Rightarrow> string result" where
  "hashed_password env pw salt =
     (case pw of
        None \<Rightarrow> Inl (AttributeError NoneType ''encode'')
      | Some p \<Rightarrow>
          (case salt of
             JStr s \<Rightarrow> (case hashpw env p s of Inl m \<Rightarrow> Inl (LibraryError m) | Inr h \<Rightarrow> Inr h)
           | v \<Rightarrow> Inl (AttributeError (py_type_of v) ''encode'')))"

text \<open>\<^verbatim>\<open>temp_client.execute\<close> of the sign-in mutation, with the e-mail and the hash.\<close>

definition sign_in :: "environment \<Rightarrow> string \<Rightarrow> json action" where
  "sign_in env hashed_pw b =
     (let b1 = emit (Sign_in (email b) hashed_pw) b in
      case signin_response env (effects b1) of
        Inl m \<Rightarrow> (Inl (LibraryError m), b1)
      | Inr result \<Rightarrow> (Inr result, b1))"

definition set_client :: "session \<Rightarrow> unit action" where
  "set_client s b = (Inr (), b\<lparr>client := Some s\<rparr>)"

text \<open>
  What \<^verbatim>\<open>_authenticate\<close> does with the result of the sign-in mutation: the check of
  \<^verbatim>\<open>errors\<close>, then the assignment of \<^verbatim>\<open>self.client\<close>, whose right-hand side reads the
  token before anything is assigned.
\<close>

definition open_session :: "environment \<Rightarrow> json \<Rightarrow> unit action" where
  "open_session env result =
     bindA (liftR (bindR (dict_get result ''signIn'' (JObj [])) (\<lambda>s.
                   dict_get s ''errors'' JNull))) (\<lambda>errors.
       if truthy errors
       then liftR (Inl (Exception (''Auth failed: '' @ py_format env errors)))
       else
         bindA (liftR (bindR (subscript result ''signIn'') (\<lambda>s.
                       bindR (subscript s ''jwtToken'') (\<lambda>j.
                       subscript j ''token'')))) (\<lambda>token.
         set_client (Session (''Bearer '' @ py_format env token) ''sorare-bot'')))"

definition authenticate :: "environment \<Rightarrow> unit action" where
  "authenticate env b =
     bindA (get_salt env) (\<lambda>salt.
       if \<not> truthy salt
       then liftR (Inl (Exception ''Failed to retrieve salt from Sorare API.''))
       else
         bindA (liftR (hashed_password env (password b) salt)) (\<lambda>hashed_pw.
         bindA (sign_in env hashed_pw) (\<lambda>result.
         open_session env result)))
     b"

subsection \<open>\<^verbatim>\<open>_send_alert\<close>\<close>

definition requests_post :: "environment \<Rightarrow> string option \<Rightarrow> json \<Rightarrow> nat \<Rightarrow> nat action" where
  "requests_post env url body secs b =
     (let b1 = emit (Http_post url body secs) b in
      case webhook_response env (effects b1) of
        Post_raises m \<Rightarrow> (Inl (LibraryError m), b1)
      | Post_response status \<Rightarrow> (Inr status, b1))"

definition send_alert :: "environment \<Rightarrow> string \<Rightarrow> unit action" where
  "send_alert env message b =
     try_except
       (bindA (requests_post env (webhook b) (JObj [(''content'', JStr message)]) 5) (\<lambda>response.
          returnA ()))
       (\<lambda>e. py_print (warning_sign @ '' Failed to send Discord alert: '' @ exc_str env e))
       b"

subsection \<open>\<^verbatim>\<open>_fetch_listings\<close>\<close>

record listing =
  slug :: json
  price :: json
  currency :: json
  player :: json

text \<open>
  \<^verbatim>\<open>price_data[0]["node"]["price"][k] if price_data else "N/A"\<close>, which the source writes
  once for the amount and once for the currency.
\<close>

definition offer_field :: "json \<Rightarrow> string \<Rightarrow> json result" where
  "offer_field price_data k =
     (if truthy price_data
      then bindR (subscript0 price_data) (\<lambda>edge.
           bindR (subscript edge ''node'') (\<lambda>node.
           bindR (subscript node ''price'') (\<lambda>p.
           subscript p k)))
      else Inr (JStr ''N/A''))"

text \<open>The body of the loop over the cards: the listing that one card yields.\<close>

definition listing_of_card :: "json \<Rightarrow> listing result" where
  "listing_of_card crd =
     bindR (bindR (dict_get crd ''saleOffers'' (JObj [])) (\<lambda>offers.
            dict_get offers ''edges'' (JList []))) (\<lambda>price_data.
     bindR (offer_field price_data ''amount'') (\<lambda>amount.
     bindR (offer_field price_data ''currency'') (\<lambda>cur.
     bindR (subscript crd ''slug'') (\<lambda>sl.
     bindR (bindR (subscript crd ''player'') (\<lambda>pl. subscript pl ''displayName'')) (\<lambda>name.
     Inr \<lparr>slug = sl, price = amount, currency = cur, player = name\<rparr>)))))"

text \<open>The loop: each listing is appended to the list; the first exception ends it.\<close>

fun append_listings :: "json list \<Rightarrow> listing list \<Rightarrow> listing list result" where
  "append_listings [] listings = Inr listings"
| "append_listings (crd # cards) listings =
     (case listing_of_card crd of
        Inl e \<Rightarrow> Inl e
      | Inr l \<Rightarrow> append_listings cards (listings @ [l]))"

text \<open>
  The part of \<^verbatim>\<open>_fetch_listings\<close> after its \<^verbatim>\<open>try\<close> statement: what the \<^verbatim>\<open>for\<close>
  statement iterates over, and the loop from the empty list.
\<close>

definition card_nodes :: "json \<Rightarrow> json list result" where
  "card_nodes result =
     bindR (dict_get result ''football'' (JObj [])) (\<lambda>football.
     bindR (dict_get football ''cards'' (JObj [])) (\<lambda>cards.
     bindR (dict_get cards ''nodes'' (JList [])) (\<lambda>nodes.
     py_iter nodes)))"

definition read_listings :: "json \<Rightarrow> listing list result" where
  "read_listings result = bindR (card_nodes result) (\<lambda>cs. append_listings cs [])"

text \<open>\<^verbatim>\<open>self.client.execute(query)\<close>: \<^verbatim>\<open>None\<close> has no \<^verbatim>\<open>execute\<close>.\<close>

definition execute_query :: "environment \<Rightarrow> json action" where
  "execute_query env b =
     (case client b of
        None \<Rightarrow> (Inl (AttributeError NoneType ''execute''), b)
      | Some s \<Rightarrow>
          (let b1 = emit (Listings_query s) b in
           case listings_response env (effects b1) of
             Inl m \<Rightarrow> (Inl (LibraryError m), b1)
           | Inr result \<Rightarrow> (Inr result, b1)))"

text \<open>
  The \<^verbatim>\<open>try\<close> statement gives \<open>Some result\<close>, or \<open>None\<close> when its handler has run, where
  the source returns the empty list.
\<close>

definition fetch_listings :: "environment \<Rightarrow> listing list action" where
  "fetch_listings env b =
     bindA
       (try_except
          (bindA (execute_query env) (\<lambda>result.
           bindA (py_print (''API Response: '' @ py_format env result)) (\<lambda>u.
           returnA (Some result))))
          (\<lambda>e.
           bindA (py_print (warning_sign @ '' API request failed: '' @ exc_str env e)) (\<lambda>u.
           bindA (send_alert env (warning_sign @ '' API request failed: '' @ exc_str env e)) (\<lambda>u.
           returnA None))))
       (\<lambda>r. case r of None \<Rightarrow> returnA [] | Some result \<Rightarrow> liftR (read_listings result))
       (emit (Enter_fetch_listings (client b)) b)"

subsection \<open>\<^verbatim>\<open>run\<close>\<close>

definition listing_message :: "environment \<Rightarrow> listing \<Rightarrow> string" where
  "listing_message env crd =
     soccer_ball @ '' '' @ py_format env (player crd) @ newline @
     money_bag @ '' '' @ py_format env (price crd) @ '' '' @ py_format env (currency crd) @ newline @
     link_sign @ '' https://sorare.com/cards/'' @ py_format env (slug crd)"

text \<open>The loop over the listings of a cycle: one printed line and one alert for each.\<close>

fun notify_listings :: "environment \<Rightarrow> listing list \<Rightarrow> unit action" where
  "notify_listings env [] b = (Inr (), b)"
| "notify_listings env (crd # cards) b =
     (case bindA (py_print (listing_message env crd)) (\<lambda>u.
             send_alert env (listing_message env crd)) b of
        (Inl e, b1) \<Rightarrow> (Inl e, b1)
      | (Inr u, b1) \<Rightarrow> notify_listings env cards b1)"

text \<open>The \<^verbatim>\<open>try\<close> block of one cycle, and the cycle with its handler.\<close>

definition cycle_body :: "environment \<Rightarrow> unit action" where
  "cycle_body env =
     bindA (fetch_listings env) (\<lambda>listings.
     bindA (notify_listings env listings) (\<lambda>u.
     time_sleep 300))"

definition cycle :: "environment \<Rightarrow> unit action" where
  "cycle env =
     try_except (cycle_body env)
       (\<lambda>e.
        bindA (py_print (warning_sign @ '' Unexpected error: '' @ exc_str env e)) (\<lambda>u.
        bindA (send_alert env (warning_sign @ '' Unexpected error: '' @ exc_str env e)) (\<lambda>u.
        time_sleep 60)))"

text \<open>
  \<^verbatim>\<open>while True\<close>, run for a given number of cycles: \<open>None\<close> when the loop is still
  running after them, \<open>Some e\<close> when the exception \<open>e\<close> has left the loop.
\<close>

fun main_loop :: "environment \<Rightarrow> nat \<Rightarrow> sorare_bot \<Rightarrow> py_exception option \<times> sorare_bot" where
  "main_loop env 0 b = (None, b)"
| "main_loop env (Suc n) b =
     (case cycle env b of
        (Inl e, b1) \<Rightarrow> (Some e, b1)
      | (Inr u, b1) \<Rightarrow> main_loop env n b1)"

text \<open>The handler of the outer \<^verbatim>\<open>try\<close> statement of \<^verbatim>\<open>run\<close>.\<close>

definition critical_failure :: "environment \<Rightarrow> py_exception \<Rightarrow> unit action" where
  "critical_failure env e =
     bindA (py_print (red_circle @ '' Critical failure: '' @ exc_str env e)) (\<lambda>u.
     send_alert env (red_circle @ '' Critical failure: '' @ exc_str env e))"

text \<open>
  How \<^verbatim>\<open>run\<close> stands after the given number of cycles: still in its loop, returned, or
  left by an exception.
\<close>

datatype status = Running | Returned | Raised py_exception

definition finish :: "unit result \<times> sorare_bot \<Rightarrow> status \<times> sorare_bot" where
  "finish r = (case r of (Inl e, b) \<Rightarrow> (Raised e, b) | (Inr u, b) \<Rightarrow> (Returned, b))"

definition startup :: "environment \<Rightarrow> unit action" where
  "startup env =
     bindA (authenticate env) (\<lambda>u.
     bindA (send_alert env (green_circle @ '' Sorare Bot Started Successfully'')) (\<lambda>u.
     py_print (green_circle @ '' Bot is running...'')))"

definition run :: "environment \<Rightarrow> nat \<Rightarrow> sorare_bot \<Rightarrow> status \<times> sorare_bot" where
  "run env fuel b =
     (case startup env b of
        (Inl e, b1) \<Rightarrow> finish (critical_failure env e b1)
      | (Inr u, b1) \<Rightarrow>
          (case main_loop env fuel b1 of
             (None, b2) \<Rightarrow> (Running, b2)
           | (Some e, b2) \<Rightarrow> finish (critical_failure env e b2)))"

section \<open>Observing a history\<close>

text \<open>The kinds of events of a history.\<close>

fun is_print :: "event \<Rightarrow> bool" where
  "is_print (Print s) = True"
| "is_print ev = False"

fun is_post :: "event \<Rightarrow> bool" where
  "is_post (Http_post url body secs) = True"
| "is_post ev = False"

fun is_sleep :: "event \<Rightarrow> bool" where
  "is_sleep (Sleep n) = True"
| "is_sleep ev = False"

fun is_get :: "event \<Rightarrow> bool" where
  "is_get (Http_get url) = True"
| "is_get ev = False"

fun is_sign_in :: "event \<Rightarrow> bool" where
  "is_sign_in (Sign_in em hashed_pw) = True"
| "is_sign_in ev = False"

fun is_query :: "event \<Rightarrow> bool" where
  "is_query (Listings_query s) = True"
| "is_query ev = False"

fun is_fetch_call :: "event \<Rightarrow> bool" where
  "is_fetch_call (Enter_fetch_listings c) = True"
| "is_fetch_call ev = False"

text \<open>
  The events of one call of \<^verbatim>\<open>_send_alert\<close> with the webhook \<open>url\<close> after the history
  \<open>h\<close>: the POST, and the line printed when the POST raises.
\<close>

definition alert_events :: "environment \<Rightarrow> string option \<Rightarrow> event list \<Rightarrow> string \<Rightarrow> event list" where
  "alert_events env url h message =
     Http_post url (JObj [(''content'', JStr message)]) 5 #
     (case webhook_response env (h @ [Http_post url (JObj [(''content'', JStr message)]) 5]) of
        Post_raises t \<Rightarrow> [Print (warning_sign @ '' Failed to send Discord alert: '' @ t)]
      | Post_response status \<Rightarrow> [])"

text \<open>
  The failures of the salt retrieval: the request raises, the status is one that
  \<^verbatim>\<open>raise_for_status\<close> raises for, or the body has no field \<^verbatim>\<open>salt\<close> (it is not JSON, not
  an object, or an object without the key).
\<close>

fun salt_missing :: "string + json \<Rightarrow> bool" where
  "salt_missing (Inl t) = True"
| "salt_missing (Inr (JObj kvs)) = (map_of kvs ''salt'' = None)"
| "salt_missing (Inr v) = True"

fun salt_retrieval_fails :: "http_result \<Rightarrow> bool" where
  "salt_retrieval_fails (Get_raises t) = True"
| "salt_retrieval_fails (Get_response status body) =
     ((400 \<le> status \<and> status < 600) \<or> salt_missing body)"

text \<open>A stretch of history in which the bot neither sleeps nor enters \<^verbatim>\<open>_fetch_listings\<close>.\<close>

definition quiet :: "event list \<Rightarrow> bool" where
  "quiet tr = (filter is_sleep tr = [] \<and> filter is_fetch_call tr = [])"

text \<open>
  The form of every run of \<^verbatim>\<open>_authenticate\<close> from the bot \<open>b\<close>: one request for the
  salt, printed lines, at most one sign-in, and a client that is assigned exactly when the
  method returns.
\<close>

definition auth_shape :: "sorare_bot \<Rightarrow> unit result \<times> sorare_bot \<Rightarrow> bool" where
  "auth_shape b out =
     (\<exists>r c log si. out = (r, b\<lparr>client := c, effects := effects b @ Http_get (users_url b) # log @ si\<rparr>)
     \<and> (log = [] \<or> (\<exists>t. log = [Print t]))
     \<and> (si = [] \<or> (\<exists>h. si = [Sign_in (email b) h]))
     \<and> (case r of Inl e \<Rightarrow> c = client b | Inr u \<Rightarrow> c \<noteq> None))"

section \<open>Scenarios\<close>

text \<open>
  An environment in which everything works (scenarios A and C of the specification): the
  salt is served, the sign-in gives a token, the listings query returns one card with one
  sale offer, and the webhook accepts every message.
\<close>

definition scenario_card :: json where
  "scenario_card =
     JObj [(''slug'', JStr ''lionel-messi-2023-rare-1''),
           (''player'', JObj [(''displayName'', JStr ''Lionel Messi'')]),
           (''saleOffers'', JObj [(''edges'', JList [JObj [(''node'', JObj [(''price'',
              JObj [(''amount'', JStr ''1000000''), (''currency'', JStr ''WEI'')])])]])])]"

definition listings_of_cards :: "json list \<Rightarrow> json" where
  "listings_of_cards cs = JObj [(''football'', JObj [(''cards'', JObj [(''nodes'', JList cs)])])]"

text \<open>
  A salt of the form that bcrypt takes (version, cost, and 22 characters of its alphabet
  that end in one of the four characters a salt can end in), and a stand-in for bcrypt in
  the scenarios: with the salt of the scenarios it gives a text of the form of a bcrypt
  hash, the salt followed by 31 characters, which are not computed here; it takes no other
  salt.
\<close>

definition scenario_salt :: string where
  "scenario_salt = ''$2b$12$abcdefghijklmnopqrstuu''"

definition scenario_hash :: string where
  "scenario_hash = scenario_salt @ ''0123456789012345678901234567890''"

definition scenario_hashpw :: "string \<Rightarrow> string \<Rightarrow> string + string" where
  "scenario_hashpw p s = (if s = scenario_salt then Inr scenario_hash else Inl ''Invalid salt'')"

definition scenario_env :: environment where
  "scenario_env =
     \<lparr>salt_response = (\<lambda>h. Get_response 200 (Inr (JObj [(''salt'', JStr scenario_salt)]))),
      signin_response = (\<lambda>h. Inr (JObj [(''signIn'',
         JObj [(''jwtToken'', JObj [(''token'', JStr ''tok'')]), (''errors'', JList [])])])),
      listings_response = (\<lambda>h. Inr (listings_of_cards [scenario_card])),
      webhook_response = (\<lambda>h. Post_response 204),
      hashpw = scenario_hashpw,
      repr = (\<lambda>v. ''<object>''),
      builtin_text = (\<lambda>e. ''<error>''),
      status_error_text = (\<lambda>status url. ''HTTP error'')\<rparr>"

definition scenario_bot :: sorare_bot where
  "scenario_bot = sorare_bot_init (Some ''me@example.org'') (Some ''secret'') (Some ''https://hook'')"

definition signed_in_bot :: sorare_bot where
  "signed_in_bot = scenario_bot\<lparr>client := Some (Session ''Bearer tok'' ''sorare-bot'')\<rparr>"


text \<open>The listings query returns a card without the field \<^verbatim>\<open>slug\<close>.\<close>

definition card_without_slug :: json where
  "card_without_slug =
     JObj [(''player'', JObj [(''displayName'', JStr ''Lionel Messi'')]),
           (''saleOffers'', JObj [(''edges'', JList [])])]"


text \<open>A card that has no sale offer.\<close>

definition card_without_offers :: json where
  "card_without_offers =
     JObj [(''slug'', JStr ''lionel-messi-2023-rare-1''),
           (''player'', JObj [(''displayName'', JStr ''Lionel Messi'')]),
           (''saleOffers'', JObj [(''edges'', JList [])])]"



text \<open>
  The salt endpoint answers with the status 300 (which \<^verbatim>\<open>requests\<close> does not follow as a
  redirection) and a body that holds the salt.
\<close>

definition salt_multiple_choices :: environment where
  "salt_multiple_choices =
     scenario_env\<lparr>salt_response := (\<lambda>h. Get_response 300 (Inr (JObj [(''salt'', JStr scenario_salt)])))\<rparr>"

text \<open>The salt endpoint answers with the status 404 and a page that is not JSON.\<close>

definition salt_not_found :: environment where
  "salt_not_found =
     scenario_env\<lparr>salt_response := (\<lambda>h. Get_response 404 (Inl ''Expecting value''))\<rparr>"

text \<open>The salt endpoint answers with an empty salt.\<close>

definition salt_empty :: environment where
  "salt_empty =
     scenario_env\<lparr>salt_response := (\<lambda>h. Get_response 200 (Inr (JObj [(''salt'', JStr [])])))\<rparr>"

text \<open>Scenario B: the sign-in is refused.\<close>

definition bad_credentials :: environment where
  "bad_credentials =
     scenario_env\<lparr>signin_response := (\<lambda>h. Inr (JObj [(''signIn'',
        JObj [(''errors'', JList [JObj [(''message'', JStr ''Invalid credentials'')]])])]))\<rparr>"

text \<open>The listings query returns three cards, the first one twice.\<close>

definition three_listings :: environment where
  "three_listings =
     scenario_env\<lparr>listings_response :=
       (\<lambda>h. Inr (listings_of_cards [scenario_card, card_without_offers, scenario_card]))\<rparr>"

text \<open>The listings of the card of the scenario and of the card without an offer.\<close>

definition scenario_listing :: listing where
  "scenario_listing =
     \<lparr>slug = JStr ''lionel-messi-2023-rare-1'', price = JStr ''1000000'', currency = JStr ''WEI'',
      player = JStr ''Lionel Messi''\<rparr>"

definition listing_without_price :: listing where
  "listing_without_price =
     \<lparr>slug = JStr ''lionel-messi-2023-rare-1'', price = JStr ''N/A'', currency = JStr ''N/A'',
      player = JStr ''Lionel Messi''\<rparr>"

section \<open>Lemmas about the program\<close>

lemmas action_defs = returnA_def liftR_def bindA_def try_except_def emit_def py_print_def time_sleep_def

lemma send_alert_eq:
  "send_alert env m b = (Inr (), b\<lparr>effects := effects b @ alert_events env (webhook b) (effects b) m\<rparr>)"
  by (simp add: send_alert_def requests_post_def alert_events_def action_defs exc_str_def Let_def
      split: post_result.splits)

lemma alert_events_filter:
  "filter is_post (alert_events env url h m) = [Http_post url (JObj [(''content'', JStr m)]) 5]"
  "filter is_sleep (alert_events env url h m) = []"
  "filter is_get (alert_events env url h m) = []"
  "filter is_sign_in (alert_events env url h m) = []"
  "filter is_query (alert_events env url h m) = []"
  "filter is_fetch_call (alert_events env url h m) = []"
  by (simp_all add: alert_events_def split: post_result.splits)

lemma get_salt_shape:
  "\<exists>v log. get_salt env b = (Inr v, b\<lparr>effects := effects b @ Http_get (users_url b) # log\<rparr>)
     \<and> (log = [] \<or> (\<exists>t. log = [Print t]))"
  by (auto simp add: get_salt_def requests_get_def action_defs Let_def bindR_def
      raise_for_status_def response_json_def
      split: http_result.splits sum.splits prod.splits)

lemma get_salt_fails:
  assumes "salt_retrieval_fails (salt_response env (effects b @ [Http_get (users_url b)]))"
  shows "\<exists>log. get_salt env b = (Inr JNull, b\<lparr>effects := effects b @ Http_get (users_url b) # log\<rparr>)
     \<and> (log = [] \<or> (\<exists>t. log = [Print t]))"
proof (cases "salt_response env (effects b @ [Http_get (users_url b)])")
  case (Get_raises t)
  then show ?thesis
    by (auto simp add: get_salt_def requests_get_def action_defs Let_def)
next
  case (Get_response status body)
  show ?thesis
  proof (cases "400 \<le> status \<and> status < 600")
    case True
    then show ?thesis using Get_response
      by (auto simp add: get_salt_def requests_get_def action_defs Let_def bindR_def raise_for_status_def)
  next
    case False
    then have m: "salt_missing body" using assms Get_response by auto
    then show ?thesis using Get_response False
      by (cases body rule: salt_missing.cases)
         (auto simp add: get_salt_def requests_get_def action_defs Let_def bindR_def
            raise_for_status_def response_json_def)
  qed
qed


lemma open_session_cases:
  "(\<exists>e. open_session env result b = (Inl e, b)) \<or>
   (\<exists>s. open_session env result b = (Inr (), b\<lparr>client := Some s\<rparr>))"
  by (auto simp add: open_session_def action_defs set_client_def split: sum.splits)

lemma sign_in_eq:
  "sign_in env h b =
     (case signin_response env (effects b @ [Sign_in (email b) h]) of
        Inl m \<Rightarrow> Inl (LibraryError m) | Inr result \<Rightarrow> Inr result,
      b\<lparr>effects := effects b @ [Sign_in (email b) h]\<rparr>)"
  by (simp add: sign_in_def action_defs Let_def split: sum.splits)

lemma authenticate_no_salt:
  "get_salt env b = (Inr v, b1) \<Longrightarrow> \<not> truthy v \<Longrightarrow>
   authenticate env b = (Inl (Exception ''Failed to retrieve salt from Sorare API.''), b1)"
  by (simp add: authenticate_def bindA_def liftR_def)

lemma authenticate_no_hash:
  "get_salt env b = (Inr v, b1) \<Longrightarrow> truthy v \<Longrightarrow> hashed_password env (password b) v = Inl e \<Longrightarrow>
   authenticate env b = (Inl e, b1)"
  by (simp add: authenticate_def bindA_def liftR_def)

lemma authenticate_signs_in:
  "get_salt env b = (Inr v, b1) \<Longrightarrow> truthy v \<Longrightarrow> hashed_password env (password b) v = Inr h \<Longrightarrow>
   authenticate env b =
     (case signin_response env (effects b1 @ [Sign_in (email b1) h]) of
        Inl m \<Rightarrow> (Inl (LibraryError m), b1\<lparr>effects := effects b1 @ [Sign_in (email b1) h]\<rparr>)
      | Inr result \<Rightarrow> open_session env result (b1\<lparr>effects := effects b1 @ [Sign_in (email b1) h]\<rparr>))"
  by (simp add: authenticate_def bindA_def liftR_def sign_in_eq split: sum.splits)

lemma authenticate_cases:
  "(\<exists>e log. authenticate env b = (Inl e, b\<lparr>effects := effects b @ Http_get (users_url b) # log\<rparr>)
      \<and> (log = [] \<or> (\<exists>t. log = [Print t])))
   \<or> (\<exists>log h. (log = [] \<or> (\<exists>t. log = [Print t])) \<and>
        authenticate env b =
          (case signin_response env (effects b @ Http_get (users_url b) # log @ [Sign_in (email b) h]) of
             Inl m \<Rightarrow> (Inl (LibraryError m),
                b\<lparr>effects := effects b @ Http_get (users_url b) # log @ [Sign_in (email b) h]\<rparr>)
           | Inr result \<Rightarrow> open_session env result
                (b\<lparr>effects := effects b @ Http_get (users_url b) # log @ [Sign_in (email b) h]\<rparr>)))"
proof -
  obtain v log where g: "get_salt env b = (Inr v, b\<lparr>effects := effects b @ Http_get (users_url b) # log\<rparr>)"
    and l: "log = [] \<or> (\<exists>t. log = [Print t])"
    using get_salt_shape by blast
  show ?thesis
  proof (cases "truthy v")
    case False
    from authenticate_no_salt[OF g False] l show ?thesis by blast
  next
    case True
    show ?thesis
    proof (cases "hashed_password env (password b) v")
      case (Inl e)
      from authenticate_no_hash[OF g True Inl] l show ?thesis by blast
    next
      case (Inr h)
      have "authenticate env b =
          (case signin_response env (effects b @ Http_get (users_url b) # log @ [Sign_in (email b) h]) of
             Inl m \<Rightarrow> (Inl (LibraryError m),
                b\<lparr>effects := effects b @ Http_get (users_url b) # log @ [Sign_in (email b) h]\<rparr>)
           | Inr result \<Rightarrow> open_session env result
                (b\<lparr>effects := effects b @ Http_get (users_url b) # log @ [Sign_in (email b) h]\<rparr>))"
        using authenticate_signs_in[OF g True Inr] by (simp split: sum.splits)
      with l show ?thesis by blast
    qed
  qed
qed

lemma auth_shapeI:
  "out = (r, b1) \<Longrightarrow>
   b1 = b\<lparr>client := c, effects := effects b @ Http_get (users_url b) # log @ si\<rparr> \<Longrightarrow>
   log = [] \<or> (\<exists>t. log = [Print t]) \<Longrightarrow>
   si = [] \<or> (\<exists>h. si = [Sign_in (email b) h]) \<Longrightarrow>
   (case r of Inl e \<Rightarrow> c = client b | Inr u \<Rightarrow> c \<noteq> None) \<Longrightarrow> auth_shape b out"
  unfolding auth_shape_def by blast

lemma authenticate_shape: "auth_shape b (authenticate env b)"
proof -
  consider
    (early) e log where
      "authenticate env b = (Inl e, b\<lparr>effects := effects b @ Http_get (users_url b) # log\<rparr>)"
      "log = [] \<or> (\<exists>t. log = [Print t])"
  | (signed) log h where
      "log = [] \<or> (\<exists>t. log = [Print t])"
      "authenticate env b =
          (case signin_response env (effects b @ Http_get (users_url b) # log @ [Sign_in (email b) h]) of
             Inl m \<Rightarrow> (Inl (LibraryError m),
                b\<lparr>effects := effects b @ Http_get (users_url b) # log @ [Sign_in (email b) h]\<rparr>)
           | Inr result \<Rightarrow> open_session env result
                (b\<lparr>effects := effects b @ Http_get (users_url b) # log @ [Sign_in (email b) h]\<rparr>))"
    using authenticate_cases[of env b] by blast
  then show ?thesis
  proof cases
    case early
    show ?thesis
      by (rule auth_shapeI[OF early(1), where log = log and si = "[]" and c = "client b"])
         (simp_all add: early(2))
  next
    case signed
    define b2 where "b2 = b\<lparr>effects := effects b @ Http_get (users_url b) # log @ [Sign_in (email b) h]\<rparr>"
    have a: "authenticate env b =
          (case signin_response env (effects b2) of
             Inl m \<Rightarrow> (Inl (LibraryError m), b2)
           | Inr result \<Rightarrow> open_session env result b2)"
      using signed(2) by (simp add: b2_def cong: sum.case_cong)
    have raised: "auth_shape b (authenticate env b)" if au: "authenticate env b = (Inl e, b2)" for e
      by (rule auth_shapeI[OF au, where log = log and si = "[Sign_in (email b) h]" and c = "client b"])
         (simp_all add: b2_def signed(1))
    show ?thesis
    proof (cases "signin_response env (effects b2)")
      case (Inl m)
      then show ?thesis using a by (intro raised) simp
    next
      case (Inr result)
      then have a2: "authenticate env b = open_session env result b2" using a by simp
      from open_session_cases[of env result b2] show ?thesis
      proof (elim disjE exE)
        fix e assume "open_session env result b2 = (Inl e, b2)"
        then show ?thesis using a2 by (intro raised) simp
      next
        fix s assume "open_session env result b2 = (Inr (), b2\<lparr>client := Some s\<rparr>)"
        then have au: "authenticate env b = (Inr (), b2\<lparr>client := Some s\<rparr>)" using a2 by simp
        show ?thesis
          by (rule auth_shapeI[OF au, where log = log and si = "[Sign_in (email b) h]" and c = "Some s"])
             (simp_all add: b2_def signed(1))
      qed
    qed
  qed
qed


lemma quiet_simps:
  "quiet []"
  "quiet (xs @ ys) = (quiet xs \<and> quiet ys)"
  "quiet (Print m # xs) = quiet xs"
  "quiet (Listings_query s # xs) = quiet xs"
  "quiet (alert_events env url h m)"
  by (auto simp add: quiet_def alert_events_filter)

lemma fetch_listings_request_raises:
  "client b = Some s \<Longrightarrow>
   listings_response env (effects b @ [Enter_fetch_listings (Some s), Listings_query s]) = Inl t \<Longrightarrow>
   fetch_listings env b =
     (Inr [], b\<lparr>effects := effects b @
        [Enter_fetch_listings (Some s), Listings_query s,
         Print (warning_sign @ '' API request failed: '' @ t)] @
        alert_events env (webhook b)
          (effects b @ [Enter_fetch_listings (Some s), Listings_query s,
                        Print (warning_sign @ '' API request failed: '' @ t)])
          (warning_sign @ '' API request failed: '' @ t)\<rparr>)"
  by (simp add: fetch_listings_def execute_query_def action_defs send_alert_eq exc_str_def Let_def)

lemma fetch_listings_response:
  "client b = Some s \<Longrightarrow>
   listings_response env (effects b @ [Enter_fetch_listings (Some s), Listings_query s]) = Inr result \<Longrightarrow>
   fetch_listings env b =
     (read_listings result, b\<lparr>effects := effects b @
        [Enter_fetch_listings (Some s), Listings_query s,
         Print (''API Response: '' @ py_format env result)]\<rparr>)"
  by (simp add: fetch_listings_def execute_query_def action_defs Let_def)

lemma fetch_listings_no_client:
  "client b = None \<Longrightarrow>
   fetch_listings env b =
     (Inr [], b\<lparr>effects := effects b @
        [Enter_fetch_listings None,
         Print (warning_sign @ '' API request failed: '' @ exc_str env (AttributeError NoneType ''execute''))] @
        alert_events env (webhook b)
          (effects b @ [Enter_fetch_listings None,
             Print (warning_sign @ '' API request failed: '' @ exc_str env (AttributeError NoneType ''execute''))])
          (warning_sign @ '' API request failed: '' @ exc_str env (AttributeError NoneType ''execute''))\<rparr>)"
  by (simp add: fetch_listings_def execute_query_def action_defs send_alert_eq Let_def)

lemma fetch_listings_shape:
  "\<exists>r tr. fetch_listings env b = (r, b\<lparr>effects := effects b @ Enter_fetch_listings (client b) # tr\<rparr>)
     \<and> quiet tr"
proof (cases "client b")
  case None
  show ?thesis
    using fetch_listings_no_client[OF None, of env] by (auto simp add: None quiet_simps)
next
  case (Some s)
  show ?thesis
  proof (cases "listings_response env (effects b @ [Enter_fetch_listings (Some s), Listings_query s])")
    case (Inl t)
    show ?thesis
      using fetch_listings_request_raises[OF Some Inl] by (auto simp add: Some quiet_simps)
  next
    case (Inr result)
    show ?thesis
      using fetch_listings_response[OF Some Inr] by (auto simp add: Some quiet_simps)
  qed
qed

lemma notify_listings_shape:
  "\<exists>tr. notify_listings env ls b = (Inr (), b\<lparr>effects := effects b @ tr\<rparr>) \<and> quiet tr"
proof (induction ls arbitrary: b)
  case Nil
  show ?case by (rule exI[of _ "[]"]) (simp add: quiet_simps)
next
  case (Cons c cs)
  define b1 where "b1 = b\<lparr>effects := effects b @ Print (listing_message env c) #
      alert_events env (webhook b) (effects b @ [Print (listing_message env c)]) (listing_message env c)\<rparr>"
  have step: "notify_listings env (c # cs) b = notify_listings env cs b1"
    by (simp add: b1_def action_defs send_alert_eq)
  obtain tr where tr: "notify_listings env cs b1 = (Inr (), b1\<lparr>effects := effects b1 @ tr\<rparr>)" "quiet tr"
    using Cons.IH[of b1] by blast
  have "notify_listings env (c # cs) b =
      (Inr (), b\<lparr>effects := effects b @ (Print (listing_message env c) #
        alert_events env (webhook b) (effects b @ [Print (listing_message env c)]) (listing_message env c) @ tr)\<rparr>)"
    using step tr(1) by (simp add: b1_def)
  moreover have "quiet (Print (listing_message env c) #
        alert_events env (webhook b) (effects b @ [Print (listing_message env c)]) (listing_message env c) @ tr)"
    using tr(2) by (simp add: quiet_simps)
  ultimately show ?case by blast
qed

lemma cycle_body_shape:
  "\<exists>r tr. cycle_body env b = (r, b\<lparr>effects := effects b @ Enter_fetch_listings (client b) # tr\<rparr>)
     \<and> (case r of Inl e \<Rightarrow> quiet tr | Inr u \<Rightarrow> \<exists>tr1. tr = tr1 @ [Sleep 300] \<and> quiet tr1)"
proof -
  obtain r tr where f: "fetch_listings env b = (r, b\<lparr>effects := effects b @ Enter_fetch_listings (client b) # tr\<rparr>)"
    and q: "quiet tr"
    using fetch_listings_shape by blast
  define b1 where "b1 = b\<lparr>effects := effects b @ Enter_fetch_listings (client b) # tr\<rparr>"
  show ?thesis
  proof (cases r)
    case (Inl e)
    then have "cycle_body env b = (Inl e, b\<lparr>effects := effects b @ Enter_fetch_listings (client b) # tr\<rparr>)"
      using f by (simp add: cycle_body_def bindA_def)
    then show ?thesis using q by force
  next
    case (Inr ls)
    obtain tr2 where n: "notify_listings env ls b1 = (Inr (), b1\<lparr>effects := effects b1 @ tr2\<rparr>)" and q2: "quiet tr2"
      using notify_listings_shape by blast
    have "cycle_body env b =
        (Inr (), b\<lparr>effects := effects b @ Enter_fetch_listings (client b) # ((tr @ tr2) @ [Sleep 300])\<rparr>)"
      using f Inr n by (simp add: cycle_body_def bindA_def b1_def time_sleep_def emit_def)
    moreover have "quiet (tr @ tr2)" using q q2 by (simp add: quiet_simps)
    ultimately show ?thesis by force
  qed
qed

lemma cycle_handler:
  "cycle_body env b = (Inl e, b1) \<Longrightarrow>
   cycle env b =
     (Inr (), b1\<lparr>effects := effects b1 @
        Print (warning_sign @ '' Unexpected error: '' @ exc_str env e) #
        alert_events env (webhook b1)
          (effects b1 @ [Print (warning_sign @ '' Unexpected error: '' @ exc_str env e)])
          (warning_sign @ '' Unexpected error: '' @ exc_str env e) @
        [Sleep 60]\<rparr>)"
  by (simp add: cycle_def action_defs send_alert_eq)

lemma cycle_no_handler:
  "cycle_body env b = (Inr u, b1) \<Longrightarrow> cycle env b = (Inr u, b1)"
  by (simp add: cycle_def try_except_def)

lemma cycle_shape:
  "\<exists>tr d. cycle env b = (Inr (), b\<lparr>effects := effects b @ Enter_fetch_listings (client b) # tr @ [Sleep d]\<rparr>)
     \<and> quiet tr \<and> (d = 60 \<or> d = 300)"
proof -
  obtain r tr where c: "cycle_body env b = (r, b\<lparr>effects := effects b @ Enter_fetch_listings (client b) # tr\<rparr>)"
    and q: "case r of Inl e \<Rightarrow> quiet tr | Inr u \<Rightarrow> \<exists>tr1. tr = tr1 @ [Sleep 300] \<and> quiet tr1"
    using cycle_body_shape by blast
  show ?thesis
  proof (cases r)
    case (Inl e)
    define m where "m = warning_sign @ '' Unexpected error: '' @ exc_str env e"
    define al where "al = alert_events env (webhook b)
          (effects b @ Enter_fetch_listings (client b) # tr @ [Print m]) m"
    have "cycle env b =
       (Inr (), b\<lparr>effects := effects b @ Enter_fetch_listings (client b) # (tr @ Print m # al) @ [Sleep 60]\<rparr>)"
      using cycle_handler[OF c[unfolded Inl]] by (simp add: m_def al_def)
    moreover have "quiet (tr @ Print m # al)" using q Inl by (simp add: quiet_simps al_def)
    ultimately show ?thesis by blast
  next
    case (Inr u)
    then obtain tr1 where t: "tr = tr1 @ [Sleep 300]" "quiet tr1" using q by auto
    have "cycle env b =
       (Inr (), b\<lparr>effects := effects b @ Enter_fetch_listings (client b) # tr1 @ [Sleep 300]\<rparr>)"
      using cycle_no_handler[OF c[unfolded Inr]] t(1) by simp
    then show ?thesis using t(2) by blast
  qed
qed

lemma main_loop_shape:
  "\<exists>tr (ds :: nat list). main_loop env n b = (None, b\<lparr>effects := effects b @ tr\<rparr>)
     \<and> filter is_fetch_call tr = replicate n (Enter_fetch_listings (client b))
     \<and> filter is_sleep tr = map Sleep ds \<and> length ds = n \<and> set ds \<subseteq> {60, 300}"
proof (induction n arbitrary: b)
  case 0
  show ?case by (rule exI[of _ "[]"], rule exI[of _ "[]"]) simp
next
  case (Suc n)
  obtain tr d where c: "cycle env b = (Inr (), b\<lparr>effects := effects b @ Enter_fetch_listings (client b) # tr @ [Sleep d]\<rparr>)"
    and q: "quiet tr" and d: "d = 60 \<or> d = 300"
    using cycle_shape by blast
  define b1 where "b1 = b\<lparr>effects := effects b @ Enter_fetch_listings (client b) # tr @ [Sleep d]\<rparr>"
  obtain tr2 ds where m: "main_loop env n b1 = (None, b1\<lparr>effects := effects b1 @ tr2\<rparr>)"
    and f: "filter is_fetch_call tr2 = replicate n (Enter_fetch_listings (client b1))"
    and s: "filter is_sleep tr2 = map Sleep ds" "length ds = n" "set ds \<subseteq> {60, 300}"
    using Suc.IH[of b1] by blast
  have "main_loop env (Suc n) b =
      (None, b\<lparr>effects := effects b @ (Enter_fetch_listings (client b) # tr @ [Sleep d]) @ tr2\<rparr>)"
    using c m by (simp add: b1_def)
  moreover have "filter is_fetch_call ((Enter_fetch_listings (client b) # tr @ [Sleep d]) @ tr2)
      = replicate (Suc n) (Enter_fetch_listings (client b))"
    using q f by (simp add: quiet_def b1_def)
  moreover have "filter is_sleep ((Enter_fetch_listings (client b) # tr @ [Sleep d]) @ tr2) = map Sleep (d # ds)"
    using q s(1) by (simp add: quiet_def)
  moreover have "length (d # ds) = Suc n" using s(2) by simp
  moreover have "set (d # ds) \<subseteq> {60, 300}" using s(3) d by auto
  ultimately show ?case by blast
qed

lemma startup_raises:
  "authenticate env b = (Inl e, b1) \<Longrightarrow> startup env b = (Inl e, b1)"
  by (simp add: startup_def bindA_def)

lemma startup_returns:
  "authenticate env b = (Inr u, b1) \<Longrightarrow>
   startup env b =
     (Inr (), b1\<lparr>effects := effects b1 @
        alert_events env (webhook b1) (effects b1) (green_circle @ '' Sorare Bot Started Successfully'') @
        [Print (green_circle @ '' Bot is running...'')]\<rparr>)"
  by (simp add: startup_def action_defs send_alert_eq)

lemma run_raises:
  "authenticate env b = (Inl e, b1) \<Longrightarrow>
   run env fuel b =
     (Returned, b1\<lparr>effects := effects b1 @
        Print (red_circle @ '' Critical failure: '' @ exc_str env e) #
        alert_events env (webhook b1)
          (effects b1 @ [Print (red_circle @ '' Critical failure: '' @ exc_str env e)])
          (red_circle @ '' Critical failure: '' @ exc_str env e)\<rparr>)"
  by (simp add: run_def startup_raises critical_failure_def finish_def action_defs send_alert_eq)

lemma run_returns:
  "authenticate env b = (Inr u, b1) \<Longrightarrow>
   run env fuel b =
     (Running, snd (main_loop env fuel (b1\<lparr>effects := effects b1 @
        alert_events env (webhook b1) (effects b1) (green_circle @ '' Sorare Bot Started Successfully'') @
        [Print (green_circle @ '' Bot is running...'')]\<rparr>)))"
proof -
  define b2 where "b2 = b1\<lparr>effects := effects b1 @
        alert_events env (webhook b1) (effects b1) (green_circle @ '' Sorare Bot Started Successfully'') @
        [Print (green_circle @ '' Bot is running...'')]\<rparr>"
  obtain tr where "main_loop env fuel b2 = (None, b2\<lparr>effects := effects b2 @ tr\<rparr>)"
    using main_loop_shape[of env fuel b2] by blast
  moreover assume "authenticate env b = (Inr u, b1)"
  ultimately show ?thesis
    using startup_returns[of env b u b1] by (simp add: run_def b2_def)
qed

lemmas scenario_defs = scenario_env_def scenario_bot_def signed_in_bot_def sorare_bot_init_def
  listings_of_cards_def scenario_card_def


lemma append_listings_Inr:
  "(append_listings cs acc = Inr ls) = (\<exists>ls1. ls = acc @ ls1 \<and> map listing_of_card cs = map Inr ls1)"
proof (induction cs arbitrary: acc)
  case Nil
  show ?case by auto
next
  case (Cons c cs)
  show ?case
  proof (cases "listing_of_card c")
    case (Inl e)
    then show ?thesis by auto
  next
    case (Inr l)
    have "(append_listings (c # cs) acc = Inr ls) =
          (\<exists>ls2. ls = (acc @ [l]) @ ls2 \<and> map listing_of_card cs = map Inr ls2)"
      using Cons.IH[of "acc @ [l]"] Inr by simp
    also have "\<dots> = (\<exists>ls1. ls = acc @ ls1 \<and> map listing_of_card (c # cs) = map Inr ls1)"
    proof
      assume "\<exists>ls2. ls = (acc @ [l]) @ ls2 \<and> map listing_of_card cs = map Inr ls2"
      then obtain ls2 where "ls = acc @ (l # ls2)" "map listing_of_card (c # cs) = map Inr (l # ls2)"
        using Inr by auto
      then show "\<exists>ls1. ls = acc @ ls1 \<and> map listing_of_card (c # cs) = map Inr ls1" by blast
    next
      assume "\<exists>ls1. ls = acc @ ls1 \<and> map listing_of_card (c # cs) = map Inr ls1"
      then obtain ls1 where l1: "ls = acc @ ls1" "map listing_of_card (c # cs) = map Inr ls1" by blast
      then obtain ls2 where "ls1 = l # ls2" "map listing_of_card cs = map Inr ls2"
        using Inr by (cases ls1) auto
      then show "\<exists>ls2. ls = (acc @ [l]) @ ls2 \<and> map listing_of_card cs = map Inr ls2"
        using l1(1) by auto
    qed
    finally show ?thesis .
  qed
qed

lemma read_listings_Inr:
  "card_nodes result = Inr cs \<Longrightarrow>
   (read_listings result = Inr ls) = (map listing_of_card cs = map Inr ls)"
  by (simp add: read_listings_def bindR_def append_listings_Inr)

lemma listing_without_offers:
  "dict_get crd ''saleOffers'' (JObj []) = Inr offers \<Longrightarrow>
   dict_get offers ''edges'' (JList []) = Inr (JList []) \<Longrightarrow>
   listing_of_card crd =
     bindR (subscript crd ''slug'') (\<lambda>sl.
     bindR (bindR (subscript crd ''player'') (\<lambda>pl. subscript pl ''displayName'')) (\<lambda>name.
     Inr \<lparr>slug = sl, price = JStr ''N/A'', currency = JStr ''N/A'', player = name\<rparr>))"
  by (simp add: listing_of_card_def offer_field_def bindR_def)

lemma listing_of_scenario_card: "listing_of_card scenario_card = Inr scenario_listing"
  by (simp add: scenario_card_def scenario_listing_def listing_of_card_def offer_field_def bindR_def)

lemma listing_of_card_without_offers: "listing_of_card card_without_offers = Inr listing_without_price"
  by (simp add: card_without_offers_def listing_without_price_def listing_of_card_def offer_field_def
      bindR_def)

lemma card_nodes_of_cards: "card_nodes (listings_of_cards cs) = Inr cs"
  by (simp add: card_nodes_def listings_of_cards_def bindR_def)

lemma authenticate_salt_fails:
  assumes "salt_retrieval_fails (salt_response env (effects b @ [Http_get (users_url b)]))"
  shows "\<exists>log. authenticate env b =
      (Inl (Exception ''Failed to retrieve salt from Sorare API.''),
       b\<lparr>effects := effects b @ Http_get (users_url b) # log\<rparr>)
     \<and> (log = [] \<or> (\<exists>t. log = [Print t]))"
proof -
  obtain log where g: "get_salt env b = (Inr JNull, b\<lparr>effects := effects b @ Http_get (users_url b) # log\<rparr>)"
    and l: "log = [] \<or> (\<exists>t. log = [Print t])"
    using get_salt_fails[OF assms] by blast
  have "authenticate env b =
      (Inl (Exception ''Failed to retrieve salt from Sorare API.''),
       b\<lparr>effects := effects b @ Http_get (users_url b) # log\<rparr>)"
    by (rule authenticate_no_salt[OF g]) simp
  with l show ?thesis by blast
qed

lemma get_salt_status:
  "salt_response env (effects b @ [Http_get (users_url b)]) = Get_response status body \<Longrightarrow>
   400 \<le> status \<and> status < 600 \<Longrightarrow>
   get_salt env b =
     (Inr JNull, b\<lparr>effects := effects b @
        [Http_get (users_url b),
         Print (warning_sign @ '' Error getting salt: '' @ status_error_text env status (users_url b))]\<rparr>)"
  by (simp add: get_salt_def requests_get_def action_defs Let_def bindR_def raise_for_status_def
      exc_str_def)

lemma get_salt_field:
  "salt_response env (effects b @ [Http_get (users_url b)]) = Get_response status (Inr (JObj kvs)) \<Longrightarrow>
   \<not> (400 \<le> status \<and> status < 600) \<Longrightarrow>
   get_salt env b =
     (Inr (case map_of kvs ''salt'' of Some v \<Rightarrow> v | None \<Rightarrow> JNull),
      b\<lparr>effects := effects b @ [Http_get (users_url b)]\<rparr>)"
  by (auto simp add: get_salt_def requests_get_def action_defs Let_def bindR_def raise_for_status_def
      response_json_def)

lemma map_of_without_key: "map_of (filter (\<lambda>kv. fst kv \<noteq> k) kvs) k = None"
  by (induction kvs) auto

lemma get_salt_scenario:
  assumes "salt_response env = (\<lambda>h. Get_response status (Inr (JObj [(''salt'', JStr scenario_salt)])))"
    and "\<not> (400 \<le> status \<and> status < 600)"
  shows "get_salt env scenario_bot =
     (Inr (JStr scenario_salt),
      scenario_bot\<lparr>effects := [Http_get ''https://api.sorare.com/api/v1/users/me@example.org'']\<rparr>)"
proof -
  have r: "salt_response env (effects scenario_bot @ [Http_get (users_url scenario_bot)]) =
      Get_response status (Inr (JObj [(''salt'', JStr scenario_salt)]))"
    by (simp add: assms(1))
  show ?thesis
    using get_salt_field[OF r assms(2)] by (simp add: scenario_defs users_url_def format_opt_def)
qed

lemma authenticate_scenario:
  assumes "salt_response env = (\<lambda>h. Get_response status (Inr (JObj [(''salt'', JStr scenario_salt)])))"
    and "\<not> (400 \<le> status \<and> status < 600)"
    and "hashpw env = scenario_hashpw"
    and "signin_response env = (\<lambda>h. Inr result)"
  shows "authenticate env scenario_bot =
     open_session env result
       (scenario_bot\<lparr>effects := [Http_get ''https://api.sorare.com/api/v1/users/me@example.org'',
          Sign_in (Some ''me@example.org'') scenario_hash]\<rparr>)"
proof -
  note g = get_salt_scenario[OF assms(1) assms(2)]
  have t: "truthy (JStr scenario_salt)" by (simp add: scenario_salt_def)
  have h: "hashed_password env (password scenario_bot) (JStr scenario_salt) = Inr scenario_hash"
    by (simp add: hashed_password_def assms(3) scenario_hashpw_def scenario_defs)
  show ?thesis
    using authenticate_signs_in[OF g t h] by (simp add: assms(4)) (simp add: scenario_defs)
qed

lemma open_session_errors:
  "map_of res ''signIn'' = Some (JObj si) \<Longrightarrow> map_of si ''errors'' = Some errs \<Longrightarrow> truthy errs \<Longrightarrow>
   open_session env (JObj res) b = (Inl (Exception (''Auth failed: '' @ py_format env errs)), b)"
  by (simp add: open_session_def action_defs bindR_def)

lemma open_session_effects: "effects (snd (open_session env result b)) = effects b"
  using open_session_cases[of env result b] by auto



lemma authenticate_bad_credentials:
  "authenticate bad_credentials scenario_bot =
      (Inl (Exception ''Auth failed: <object>''),
       scenario_bot\<lparr>effects := [Http_get ''https://api.sorare.com/api/v1/users/me@example.org'',
          Sign_in (Some ''me@example.org'') scenario_hash]\<rparr>)"
  by (subst authenticate_scenario[where status = 200 and result = "JObj [(''signIn'',
        JObj [(''errors'', JList [JObj [(''message'', JStr ''Invalid credentials'')]])])]"])
     (simp_all add: bad_credentials_def scenario_env_def open_session_def action_defs bindR_def
        py_format_def)

lemma authenticate_scenario_env:
  "authenticate scenario_env scenario_bot =
      (Inr (), scenario_bot\<lparr>client := Some (Session ''Bearer tok'' ''sorare-bot''),
         effects := [Http_get ''https://api.sorare.com/api/v1/users/me@example.org'',
           Sign_in (Some ''me@example.org'') scenario_hash]\<rparr>)"
  by (subst authenticate_scenario[where status = 200 and result = "JObj [(''signIn'',
         JObj [(''jwtToken'', JObj [(''token'', JStr ''tok'')]), (''errors'', JList [])])]"])
     (simp_all add: scenario_env_def open_session_def action_defs
        set_client_def bindR_def py_format_def scenario_bot_def sorare_bot_init_def)

section \<open>The claims of the specification\<close>

subsection \<open>C2: the notifier\<close>




subsection \<open>C1: the listing fetcher and the failures of the listings API\<close>




subsection \<open>C3: a card without a sale offer\<close>

text \<open>
  C3, as amended. For every listings response, each card whose list of sale offers is empty
  (\<^verbatim>\<open>card.get("saleOffers", {}).get("edges", [])\<close> is the empty list) and whose \<^verbatim>\<open>slug\<close>
  and player's \<^verbatim>\<open>displayName\<close> can be read yields the listing of that slug and that name
  whose price is the sentinel \<^verbatim>\<open>"N/A"\<close> and whose currency is the sentinel \<^verbatim>\<open>"N/A"\<close>, and
  no error is raised for that card: the body of the loop gives that listing, the loop
  appends it and goes on with the cards that follow, and whenever the listings of a
  response are returned, the listing at the position of the card is that one.
\<close>

theorem no_sale_offers_give_sentinels:
  assumes "dict_get crd ''saleOffers'' (JObj []) = Inr offers"
    and "dict_get offers ''edges'' (JList []) = Inr (JList [])"
    and "subscript crd ''slug'' = Inr sl"
    and "subscript crd ''player'' = Inr pl"
    and "subscript pl ''displayName'' = Inr name"
  shows "listing_of_card crd =
       Inr \<lparr>slug = sl, price = JStr ''N/A'', currency = JStr ''N/A'', player = name\<rparr>
     \<and> (\<forall>cards listings. append_listings (crd # cards) listings =
           append_listings cards
             (listings @ [\<lparr>slug = sl, price = JStr ''N/A'', currency = JStr ''N/A'', player = name\<rparr>]))
     \<and> (\<forall>result cs ls i. card_nodes result = Inr cs \<longrightarrow> i < length cs \<longrightarrow> cs ! i = crd \<longrightarrow>
           read_listings result = Inr ls \<longrightarrow>
           ls ! i = \<lparr>slug = sl, price = JStr ''N/A'', currency = JStr ''N/A'', player = name\<rparr>)"
proof (intro conjI allI impI)
  show eq: "listing_of_card crd =
       Inr \<lparr>slug = sl, price = JStr ''N/A'', currency = JStr ''N/A'', player = name\<rparr>"
    using listing_without_offers[OF assms(1) assms(2)] by (simp add: assms(3-5) bindR_def)
  fix cards listings
  show "append_listings (crd # cards) listings =
      append_listings cards
        (listings @ [\<lparr>slug = sl, price = JStr ''N/A'', currency = JStr ''N/A'', player = name\<rparr>])"
    by (simp add: eq)
next
  have eq: "listing_of_card crd =
       Inr \<lparr>slug = sl, price = JStr ''N/A'', currency = JStr ''N/A'', player = name\<rparr>"
    using listing_without_offers[OF assms(1) assms(2)] by (simp add: assms(3-5) bindR_def)
  fix result cs ls i
  assume n: "card_nodes result = Inr cs" and i: "i < length cs" and c: "cs ! i = crd"
    and r: "read_listings result = Inr ls"
  from read_listings_Inr[OF n, of ls] r have m: "map listing_of_card cs = map Inr ls" by simp
  then have "length cs = length ls" by (metis length_map)
  with m i have "listing_of_card (cs ! i) = Inr (ls ! i)" by (metis nth_map)
  then show "ls ! i = \<lparr>slug = sl, price = JStr ''N/A'', currency = JStr ''N/A'', player = name\<rparr>"
    using c eq by simp
qed

text \<open>The theorem at a card without an offer, alone and as the second card of a response.\<close>

theorem no_sale_offers_give_sentinels_witness:
  "dict_get card_without_offers ''saleOffers'' (JObj []) = Inr (JObj [(''edges'', JList [])])
   \<and> dict_get (JObj [(''edges'', JList [])]) ''edges'' (JList []) = Inr (JList [])
   \<and> subscript card_without_offers ''slug'' = Inr (JStr ''lionel-messi-2023-rare-1'')
   \<and> subscript card_without_offers ''player'' = Inr (JObj [(''displayName'', JStr ''Lionel Messi'')])
   \<and> subscript (JObj [(''displayName'', JStr ''Lionel Messi'')]) ''displayName'' =
       Inr (JStr ''Lionel Messi'')
   \<and> listing_of_card card_without_offers =
       Inr \<lparr>slug = JStr ''lionel-messi-2023-rare-1'', price = JStr ''N/A'', currency = JStr ''N/A'',
            player = JStr ''Lionel Messi''\<rparr>
   \<and> read_listings (listings_of_cards [scenario_card, card_without_offers]) =
       Inr [scenario_listing,
            \<lparr>slug = JStr ''lionel-messi-2023-rare-1'', price = JStr ''N/A'', currency = JStr ''N/A'',
             player = JStr ''Lionel Messi''\<rparr>]"
proof -
  have h1: "dict_get card_without_offers ''saleOffers'' (JObj []) = Inr (JObj [(''edges'', JList [])])"
    by (simp add: card_without_offers_def)
  have h2: "dict_get (JObj [(''edges'', JList [])]) ''edges'' (JList []) = Inr (JList [])"
    by simp
  have h3: "subscript card_without_offers ''slug'' = Inr (JStr ''lionel-messi-2023-rare-1'')"
    by (simp add: card_without_offers_def)
  have h4: "subscript card_without_offers ''player'' = Inr (JObj [(''displayName'', JStr ''Lionel Messi'')])"
    by (simp add: card_without_offers_def)
  have h5: "subscript (JObj [(''displayName'', JStr ''Lionel Messi'')]) ''displayName'' =
       Inr (JStr ''Lionel Messi'')"
    by simp
  note t = no_sale_offers_give_sentinels[OF h1 h2 h3 h4 h5]
  have l: "listing_of_card card_without_offers =
       Inr \<lparr>slug = JStr ''lionel-messi-2023-rare-1'', price = JStr ''N/A'', currency = JStr ''N/A'',
            player = JStr ''Lionel Messi''\<rparr>"
    by (rule t[THEN conjunct1])
  have a: "append_listings [card_without_offers] [scenario_listing] =
       Inr [scenario_listing,
            \<lparr>slug = JStr ''lionel-messi-2023-rare-1'', price = JStr ''N/A'', currency = JStr ''N/A'',
             player = JStr ''Lionel Messi''\<rparr>]"
    using t[THEN conjunct2, THEN conjunct1] by simp
  have r: "read_listings (listings_of_cards [scenario_card, card_without_offers]) =
       Inr [scenario_listing,
            \<lparr>slug = JStr ''lionel-messi-2023-rare-1'', price = JStr ''N/A'', currency = JStr ''N/A'',
             player = JStr ''Lionel Messi''\<rparr>]"
    using a by (simp add: read_listings_def card_nodes_of_cards bindR_def listing_of_scenario_card)
  show ?thesis using h1 h2 h3 h4 h5 l r by simp
qed

text \<open>
  C3 as stated fails: this card has an empty list of sale offers and no \<^verbatim>\<open>slug\<close>; the two
  conditional expressions give the sentinels, and then \<^verbatim>\<open>card["slug"]\<close> raises
  \<^verbatim>\<open>KeyError('slug')\<close>, for the card and for the response that holds it: no listing is
  yielded.
\<close>

theorem no_sale_offers_without_slug_raises:
  "dict_get card_without_slug ''saleOffers'' (JObj []) = Inr (JObj [(''edges'', JList [])])
   \<and> dict_get (JObj [(''edges'', JList [])]) ''edges'' (JList []) = Inr (JList [])
   \<and> listing_of_card card_without_slug = Inl (KeyError (JStr ''slug''))
   \<and> read_listings (listings_of_cards [card_without_slug]) = Inl (KeyError (JStr ''slug''))"
  by (simp add: card_without_slug_def read_listings_def card_nodes_of_cards listing_of_card_def
      offer_field_def bindR_def)

subsection \<open>C9: what the fetcher returns\<close>

text \<open>
  C9, as amended. When the listings request of a poll cycle returns a response whose cards
  are the nodes \<open>cs\<close>, \<^verbatim>\<open>_fetch_listings\<close> returns the list \<open>ls\<close> exactly when \<open>ls\<close>
  holds, position by position, the listing of each node: one listing per node of the
  response, in the order of the response, nothing sorted, dropped or merged. The number of
  listings is the number of nodes that the API returned; the query asks for the first 5,
  and the source does not check how many came.
\<close>

theorem fetch_listings_one_listing_per_node:
  assumes "client b = Some s"
    and "listings_response env (effects b @ [Enter_fetch_listings (Some s), Listings_query s]) = Inr result"
    and "card_nodes result = Inr cs"
  shows "((fst (fetch_listings env b) = Inr ls) = (map listing_of_card cs = map Inr ls))
     \<and> (fst (fetch_listings env b) = Inr ls \<longrightarrow>
          length ls = length cs \<and> (\<forall>i. i < length cs \<longrightarrow> listing_of_card (cs ! i) = Inr (ls ! i)))"
proof -
  have f: "fst (fetch_listings env b) = read_listings result"
    using fetch_listings_response[OF assms(1) assms(2)] by simp
  have e: "(fst (fetch_listings env b) = Inr ls) = (map listing_of_card cs = map Inr ls)"
    by (simp add: f read_listings_Inr[OF assms(3)])
  have "length ls = length cs \<and> (\<forall>i. i < length cs \<longrightarrow> listing_of_card (cs ! i) = Inr (ls ! i))"
    if m: "map listing_of_card cs = map Inr ls"
  proof -
    have n: "length cs = length ls" using m by (metis length_map)
    have "listing_of_card (cs ! i) = Inr (ls ! i)" if "i < length cs" for i
      using m n that by (metis nth_map)
    then show ?thesis using n by simp
  qed
  then show ?thesis using e by blast
qed

text \<open>The theorem at a response of three cards, the first and the third the same.\<close>

theorem fetch_listings_one_listing_per_node_witness:
  "client signed_in_bot = Some (Session ''Bearer tok'' ''sorare-bot'')
   \<and> listings_response three_listings
        (effects signed_in_bot @ [Enter_fetch_listings (Some (Session ''Bearer tok'' ''sorare-bot'')),
           Listings_query (Session ''Bearer tok'' ''sorare-bot'')]) =
       Inr (listings_of_cards [scenario_card, card_without_offers, scenario_card])
   \<and> card_nodes (listings_of_cards [scenario_card, card_without_offers, scenario_card]) =
       Inr [scenario_card, card_without_offers, scenario_card]
   \<and> fst (fetch_listings three_listings signed_in_bot) =
       Inr [scenario_listing, listing_without_price, scenario_listing]"
proof -
  have c: "client signed_in_bot = Some (Session ''Bearer tok'' ''sorare-bot'')"
    by (simp add: scenario_defs)
  have r: "listings_response three_listings
        (effects signed_in_bot @ [Enter_fetch_listings (Some (Session ''Bearer tok'' ''sorare-bot'')),
           Listings_query (Session ''Bearer tok'' ''sorare-bot'')]) =
       Inr (listings_of_cards [scenario_card, card_without_offers, scenario_card])"
    by (simp add: three_listings_def scenario_env_def)
  note n = card_nodes_of_cards[of "[scenario_card, card_without_offers, scenario_card]"]
  have "fst (fetch_listings three_listings signed_in_bot) =
       Inr [scenario_listing, listing_without_price, scenario_listing]"
    using fetch_listings_one_listing_per_node[OF c r n,
        of "[scenario_listing, listing_without_price, scenario_listing]"]
    by (simp add: listing_of_scenario_card listing_of_card_without_offers)
  then show ?thesis using c r n by simp
qed

text \<open>
  C9 as stated fails: the poll of scenario C succeeds and the response holds one card;
  \<^verbatim>\<open>_fetch_listings\<close> returns one listing, not five.
\<close>

theorem fetch_listings_returns_one_listing:
  "fst (fetch_listings scenario_env signed_in_bot) = Inr [scenario_listing]
   \<and> length (projr (fst (fetch_listings scenario_env signed_in_bot))) = 1"
proof -
  have c: "client signed_in_bot = Some (Session ''Bearer tok'' ''sorare-bot'')"
    by (simp add: scenario_defs)
  have r: "listings_response scenario_env
        (effects signed_in_bot @ [Enter_fetch_listings (Some (Session ''Bearer tok'' ''sorare-bot'')),
           Listings_query (Session ''Bearer tok'' ''sorare-bot'')]) =
       Inr (listings_of_cards [scenario_card])"
    by (simp add: scenario_env_def)
  have "fst (fetch_listings scenario_env signed_in_bot) = Inr [scenario_listing]"
    using fetch_listings_response[OF c r]
    by (simp add: read_listings_Inr[OF card_nodes_of_cards] listing_of_scenario_card)
  then show ?thesis by simp
qed

subsection \<open>C4: authentication without a salt\<close>

text \<open>
  C4, as amended. Whenever the salt retrieval fails, which is when the request raises (a
  network error), when the status of the response is between 400 and 599, or when the body
  of the response has no field \<^verbatim>\<open>salt\<close>, \<^verbatim>\<open>_authenticate\<close> raises its exception
  \<^verbatim>\<open>"Failed to retrieve salt from Sorare API."\<close> before the sign-in mutation is issued:
  the request for the salt is the only request of the run, no sign-in is attempted, and the
  client is left as it was.
\<close>

theorem salt_failure_stops_authentication:
  assumes "salt_retrieval_fails (salt_response env (effects b @ [Http_get (users_url b)]))"
  shows "fst (authenticate env b) = Inl (Exception ''Failed to retrieve salt from Sorare API.'')
     \<and> filter is_sign_in (effects (snd (authenticate env b))) = filter is_sign_in (effects b)
     \<and> filter (\<lambda>ev. \<not> is_print ev) (effects (snd (authenticate env b))) =
         filter (\<lambda>ev. \<not> is_print ev) (effects b) @ [Http_get (users_url b)]
     \<and> client (snd (authenticate env b)) = client b"
proof -
  obtain log where a: "authenticate env b =
      (Inl (Exception ''Failed to retrieve salt from Sorare API.''),
       b\<lparr>effects := effects b @ Http_get (users_url b) # log\<rparr>)"
    and l: "log = [] \<or> (\<exists>t. log = [Print t])"
    using authenticate_salt_fails[OF assms] by blast
  from l show ?thesis by (auto simp add: a)
qed

text \<open>The theorem at a salt endpoint that answers 404 with a page that is not JSON.\<close>

theorem salt_failure_stops_authentication_witness:
  "salt_retrieval_fails (salt_response salt_not_found (effects scenario_bot @ [Http_get (users_url scenario_bot)]))
   \<and> fst (authenticate salt_not_found scenario_bot) =
       Inl (Exception ''Failed to retrieve salt from Sorare API.'')
   \<and> filter is_sign_in (effects (snd (authenticate salt_not_found scenario_bot))) = []
   \<and> filter (\<lambda>ev. \<not> is_print ev) (effects (snd (authenticate salt_not_found scenario_bot))) =
       [Http_get ''https://api.sorare.com/api/v1/users/me@example.org'']
   \<and> client (snd (authenticate salt_not_found scenario_bot)) = None"
proof -
  have h: "salt_retrieval_fails
      (salt_response salt_not_found (effects scenario_bot @ [Http_get (users_url scenario_bot)]))"
    by (simp add: salt_not_found_def scenario_defs)
  show ?thesis
    using salt_failure_stops_authentication[OF h] h
    by (simp add: scenario_defs users_url_def format_opt_def)
qed

text \<open>
  C4 as stated fails: it counts every status outside 2xx as a failed retrieval, and
  \<^verbatim>\<open>raise_for_status\<close> raises only from 400 on. The salt endpoint answers 300 here, with
  a body that holds a salt of the form that bcrypt takes; \<^verbatim>\<open>_get_salt\<close> returns that
  salt, the password is hashed with it, and the sign-in mutation is issued.
\<close>

theorem sign_in_attempted_after_status_300:
  "salt_response salt_multiple_choices (effects scenario_bot @ [Http_get (users_url scenario_bot)]) =
      Get_response 300 (Inr (JObj [(''salt'', JStr scenario_salt)]))
   \<and> authenticate salt_multiple_choices scenario_bot =
      (Inr (), scenario_bot\<lparr>client := Some (Session ''Bearer tok'' ''sorare-bot''),
         effects := [Http_get ''https://api.sorare.com/api/v1/users/me@example.org'',
           Sign_in (Some ''me@example.org'') scenario_hash]\<rparr>)
   \<and> filter is_sign_in (effects (snd (authenticate salt_multiple_choices scenario_bot))) =
      [Sign_in (Some ''me@example.org'') scenario_hash]"
proof -
  have a: "authenticate salt_multiple_choices scenario_bot =
      (Inr (), scenario_bot\<lparr>client := Some (Session ''Bearer tok'' ''sorare-bot''),
         effects := [Http_get ''https://api.sorare.com/api/v1/users/me@example.org'',
           Sign_in (Some ''me@example.org'') scenario_hash]\<rparr>)"
    by (subst authenticate_scenario[where status = 300 and result = "JObj [(''signIn'',
         JObj [(''jwtToken'', JObj [(''token'', JStr ''tok'')]), (''errors'', JList [])])]"])
       (simp_all add: salt_multiple_choices_def scenario_env_def open_session_def action_defs
          set_client_def bindR_def py_format_def scenario_bot_def sorare_bot_init_def)
  show ?thesis
    by (simp add: a) (simp add: salt_multiple_choices_def scenario_env_def)
qed

subsection \<open>C10: a salt that is present but falsy\<close>

text \<open>
  C10. When the body of the salt response is an object whose field \<^verbatim>\<open>salt\<close> is present
  but falsy (the empty string, \<^verbatim>\<open>null\<close>, or any other value that Python takes for false),
  \<^verbatim>\<open>_authenticate\<close> raises the salt-retrieval failure and issues no sign-in; and the run
  is, result and history, the run against the same response without the field.
\<close>

theorem falsy_salt_is_missing_salt:
  assumes "salt_response env (effects b @ [Http_get (users_url b)]) = Get_response status (Inr (JObj kvs))"
    and "map_of kvs ''salt'' = Some v"
    and "\<not> truthy v"
  shows "fst (authenticate env b) = Inl (Exception ''Failed to retrieve salt from Sorare API.'')
     \<and> filter is_sign_in (effects (snd (authenticate env b))) = filter is_sign_in (effects b)
     \<and> authenticate env b =
         authenticate
           (env\<lparr>salt_response :=
              (\<lambda>h. Get_response status (Inr (JObj (filter (\<lambda>kv. fst kv \<noteq> ''salt'') kvs))))\<rparr>) b"
proof -
  define env1 where "env1 = env\<lparr>salt_response :=
      (\<lambda>h. Get_response status (Inr (JObj (filter (\<lambda>kv. fst kv \<noteq> ''salt'') kvs))))\<rparr>"
  have r1: "salt_response env1 (effects b @ [Http_get (users_url b)]) =
      Get_response status (Inr (JObj (filter (\<lambda>kv. fst kv \<noteq> ''salt'') kvs)))"
    by (simp add: env1_def)
  have s1: "status_error_text env1 = status_error_text env" by (simp add: env1_def)
  show ?thesis
  proof (cases "400 \<le> status \<and> status < 600")
    case True
    note g = get_salt_status[OF assms(1) True]
    note g1 = get_salt_status[OF r1 True]
    have a: "authenticate env b = (Inl (Exception ''Failed to retrieve salt from Sorare API.''),
        b\<lparr>effects := effects b @ [Http_get (users_url b),
           Print (warning_sign @ '' Error getting salt: '' @ status_error_text env status (users_url b))]\<rparr>)"
      by (rule authenticate_no_salt[OF g]) simp
    have a1: "authenticate env1 b = (Inl (Exception ''Failed to retrieve salt from Sorare API.''),
        b\<lparr>effects := effects b @ [Http_get (users_url b),
           Print (warning_sign @ '' Error getting salt: '' @ status_error_text env status (users_url b))]\<rparr>)"
      by (rule authenticate_no_salt[OF g1[unfolded s1]]) simp
    show ?thesis unfolding env1_def[symmetric] by (simp add: a a1)
  next
    case False
    have g: "get_salt env b = (Inr v, b\<lparr>effects := effects b @ [Http_get (users_url b)]\<rparr>)"
      using get_salt_field[OF assms(1) False] assms(2) by simp
    have g1: "get_salt env1 b = (Inr JNull, b\<lparr>effects := effects b @ [Http_get (users_url b)]\<rparr>)"
      using get_salt_field[OF r1 False] by (simp add: map_of_without_key)
    have a: "authenticate env b = (Inl (Exception ''Failed to retrieve salt from Sorare API.''),
        b\<lparr>effects := effects b @ [Http_get (users_url b)]\<rparr>)"
      by (rule authenticate_no_salt[OF g assms(3)])
    have a1: "authenticate env1 b = (Inl (Exception ''Failed to retrieve salt from Sorare API.''),
        b\<lparr>effects := effects b @ [Http_get (users_url b)]\<rparr>)"
      by (rule authenticate_no_salt[OF g1]) simp
    show ?thesis unfolding env1_def[symmetric] by (simp add: a a1)
  qed
qed

text \<open>The theorem at a salt endpoint that serves the empty string.\<close>

theorem falsy_salt_is_missing_salt_witness:
  "salt_response salt_empty (effects scenario_bot @ [Http_get (users_url scenario_bot)]) =
      Get_response 200 (Inr (JObj [(''salt'', JStr [])]))
   \<and> map_of [(''salt'', JStr [])] ''salt'' = Some (JStr [])
   \<and> \<not> truthy (JStr [])
   \<and> authenticate salt_empty scenario_bot =
       (Inl (Exception ''Failed to retrieve salt from Sorare API.''),
        scenario_bot\<lparr>effects := [Http_get ''https://api.sorare.com/api/v1/users/me@example.org'']\<rparr>)"
proof -
  have h: "salt_response salt_empty (effects scenario_bot @ [Http_get (users_url scenario_bot)]) =
      Get_response 200 (Inr (JObj [(''salt'', JStr [])]))"
    by (simp add: salt_empty_def scenario_defs)
  have m: "map_of [(''salt'', JStr [])] ''salt'' = Some (JStr [])" by simp
  have t: "\<not> truthy (JStr [])" by simp
  have g: "get_salt salt_empty scenario_bot =
      (Inr (JStr []), scenario_bot\<lparr>effects := effects scenario_bot @ [Http_get (users_url scenario_bot)]\<rparr>)"
    using get_salt_field[OF h] by simp
  have e: "snd (authenticate salt_empty scenario_bot) =
      scenario_bot\<lparr>effects := [Http_get ''https://api.sorare.com/api/v1/users/me@example.org'']\<rparr>"
    using authenticate_no_salt[OF g t] by (simp add: scenario_defs users_url_def format_opt_def)
  have "fst (authenticate salt_empty scenario_bot) =
      Inl (Exception ''Failed to retrieve salt from Sorare API.'')"
    by (rule falsy_salt_is_missing_salt[OF h m t, THEN conjunct1])
  with e have "authenticate salt_empty scenario_bot =
       (Inl (Exception ''Failed to retrieve salt from Sorare API.''),
        scenario_bot\<lparr>effects := [Http_get ''https://api.sorare.com/api/v1/users/me@example.org'']\<rparr>)"
    by (metis prod.collapse)
  then show ?thesis using h m t by simp
qed

subsection \<open>C5: errors in the sign-in response\<close>

text \<open>
  C5. Whenever \<^verbatim>\<open>_authenticate\<close> has issued the sign-in mutation (the run ends with the
  history \<open>h\<close> followed by the sign-in) and the response holds, under \<^verbatim>\<open>signIn\<close>, a
  non-empty list \<^verbatim>\<open>errors\<close>, the method raises the exception whose text is
  \<^verbatim>\<open>"Auth failed: "\<close> followed by that list, as Python prints it; no session is built:
  the bot differs from the one before the call in its history only, and its client is
  the one it had.
\<close>

theorem sign_in_errors_fail_authentication:
  assumes "effects (snd (authenticate env b)) = h @ [Sign_in em hp]"
    and "signin_response env (h @ [Sign_in em hp]) = Inr (JObj res)"
    and "map_of res ''signIn'' = Some (JObj si)"
    and "map_of si ''errors'' = Some (JList (x # xs))"
  shows "authenticate env b =
       (Inl (Exception (''Auth failed: '' @ repr env (JList (x # xs)))),
        b\<lparr>effects := h @ [Sign_in em hp]\<rparr>)
     \<and> client (snd (authenticate env b)) = client b"
proof -
  consider
    (early) e log where
      "authenticate env b = (Inl e, b\<lparr>effects := effects b @ Http_get (users_url b) # log\<rparr>)"
      "log = [] \<or> (\<exists>t. log = [Print t])"
  | (signed) log hh where
      "log = [] \<or> (\<exists>t. log = [Print t])"
      "authenticate env b =
          (case signin_response env (effects b @ Http_get (users_url b) # log @ [Sign_in (email b) hh]) of
             Inl m \<Rightarrow> (Inl (LibraryError m),
                b\<lparr>effects := effects b @ Http_get (users_url b) # log @ [Sign_in (email b) hh]\<rparr>)
           | Inr result \<Rightarrow> open_session env result
                (b\<lparr>effects := effects b @ Http_get (users_url b) # log @ [Sign_in (email b) hh]\<rparr>))"
    using authenticate_cases[of env b] by blast
  then show ?thesis
  proof cases
    case early
    have "last (effects (snd (authenticate env b))) = Sign_in em hp"
      by (simp add: assms(1))
    then have False using early by auto
    then show ?thesis ..
  next
    case signed
    define H where "H = effects b @ Http_get (users_url b) # log @ [Sign_in (email b) hh]"
    have a: "authenticate env b =
          (case signin_response env H of
             Inl m \<Rightarrow> (Inl (LibraryError m), b\<lparr>effects := H\<rparr>)
           | Inr result \<Rightarrow> open_session env result (b\<lparr>effects := H\<rparr>))"
      unfolding H_def by (rule signed(2))
    have "effects (snd (authenticate env b)) = H"
      by (simp add: a open_session_effects split: sum.splits)
    then have H: "H = h @ [Sign_in em hp]" using assms(1) by simp
    have "authenticate env b = open_session env (JObj res) (b\<lparr>effects := H\<rparr>)"
      using a assms(2) by (simp add: H)
    also have "\<dots> = (Inl (Exception (''Auth failed: '' @ py_format env (JList (x # xs)))), b\<lparr>effects := H\<rparr>)"
      by (rule open_session_errors[OF assms(3) assms(4)]) simp
    finally show ?thesis by (simp add: H py_format_def)
  qed
qed

text \<open>The theorem in scenario B, where the sign-in is refused.\<close>

theorem sign_in_errors_fail_authentication_witness:
  "effects (snd (authenticate bad_credentials scenario_bot)) =
      [Http_get ''https://api.sorare.com/api/v1/users/me@example.org''] @
      [Sign_in (Some ''me@example.org'') scenario_hash]
   \<and> signin_response bad_credentials
        ([Http_get ''https://api.sorare.com/api/v1/users/me@example.org''] @
         [Sign_in (Some ''me@example.org'') scenario_hash]) =
      Inr (JObj [(''signIn'',
        JObj [(''errors'', JList [JObj [(''message'', JStr ''Invalid credentials'')]])])])
   \<and> authenticate bad_credentials scenario_bot =
      (Inl (Exception ''Auth failed: <object>''),
       scenario_bot\<lparr>effects := [Http_get ''https://api.sorare.com/api/v1/users/me@example.org'',
          Sign_in (Some ''me@example.org'') scenario_hash]\<rparr>)
   \<and> client (snd (authenticate bad_credentials scenario_bot)) = None"
proof -
  have e: "effects (snd (authenticate bad_credentials scenario_bot)) =
      [Http_get ''https://api.sorare.com/api/v1/users/me@example.org''] @
      [Sign_in (Some ''me@example.org'') scenario_hash]"
    by (subst authenticate_scenario[where status = 200 and result = "JObj [(''signIn'',
        JObj [(''errors'', JList [JObj [(''message'', JStr ''Invalid credentials'')]])])]"])
       (simp_all add: bad_credentials_def scenario_env_def open_session_effects)
  have r: "signin_response bad_credentials
        ([Http_get ''https://api.sorare.com/api/v1/users/me@example.org''] @
         [Sign_in (Some ''me@example.org'') scenario_hash]) =
      Inr (JObj [(''signIn'',
        JObj [(''errors'', JList [JObj [(''message'', JStr ''Invalid credentials'')]])])])"
    by (simp add: bad_credentials_def scenario_env_def)
  have m1: "map_of [(''signIn'',
        JObj [(''errors'', JList [JObj [(''message'', JStr ''Invalid credentials'')]])])] ''signIn'' =
      Some (JObj [(''errors'', JList [JObj [(''message'', JStr ''Invalid credentials'')]])])"
    by simp
  have m2: "map_of [(''errors'', JList [JObj [(''message'', JStr ''Invalid credentials'')]])] ''errors'' =
      Some (JList (JObj [(''message'', JStr ''Invalid credentials'')] # []))"
    by simp
  show ?thesis
    using sign_in_errors_fail_authentication[OF e r m1 m2] e r
    by (simp add: bad_credentials_def scenario_env_def scenario_bot_def sorare_bot_init_def)
qed

subsection \<open>C6: recovery at the cycle boundary\<close>



subsection \<open>C7: a failed authentication ends the run\<close>



subsection \<open>C8: the session and the fetcher\<close>

text \<open>
  C8. Start \<^verbatim>\<open>run\<close> on a bot without a client, as \<^verbatim>\<open>__init__\<close> leaves it. When
  \<^verbatim>\<open>_authenticate\<close> returns or raises, the client is set if and only if it has returned;
  after any number of cycles of \<^verbatim>\<open>run\<close> the client is still what \<^verbatim>\<open>_authenticate\<close> left.
  The history of \<^verbatim>\<open>run\<close> begins with the history of \<^verbatim>\<open>_authenticate\<close>, in which
  \<^verbatim>\<open>_fetch_listings\<close> is not entered; after it, \<^verbatim>\<open>_fetch_listings\<close> is entered once per
  cycle when \<^verbatim>\<open>_authenticate\<close> has returned, each time with the client it has set, and
  never when it has raised. So every entry into \<^verbatim>\<open>_fetch_listings\<close> finds a session, and
  comes after a successful authentication.
\<close>

theorem session_iff_authenticated:
  assumes "client b = None"
  shows "((client (snd (authenticate env b)) \<noteq> None) = (fst (authenticate env b) = Inr ()))
     \<and> client (snd (run env fuel b)) = client (snd (authenticate env b))
     \<and> take (length (effects (snd (authenticate env b)))) (effects (snd (run env fuel b))) =
         effects (snd (authenticate env b))
     \<and> filter is_fetch_call (effects (snd (authenticate env b))) = filter is_fetch_call (effects b)
     \<and> filter is_fetch_call (effects (snd (run env fuel b))) =
         filter is_fetch_call (effects b) @
         (if fst (authenticate env b) = Inr ()
          then replicate fuel (Enter_fetch_listings (client (snd (authenticate env b))))
          else [])
     \<and> (\<forall>c. Enter_fetch_listings c \<in> set (drop (length (effects b)) (effects (snd (run env fuel b)))) \<longrightarrow>
            c \<noteq> None \<and> fst (authenticate env b) = Inr ())"
proof -
  obtain r c log si where
    a: "authenticate env b = (r, b\<lparr>client := c, effects := effects b @ Http_get (users_url b) # log @ si\<rparr>)"
    and l: "log = [] \<or> (\<exists>t. log = [Print t])"
    and s: "si = [] \<or> (\<exists>h. si = [Sign_in (email b) h])"
    and k: "case r of Inl e \<Rightarrow> c = client b | Inr u \<Rightarrow> c \<noteq> None"
    using authenticate_shape[of b env] unfolding auth_shape_def by blast
  define b1 where "b1 = b\<lparr>client := c, effects := effects b @ Http_get (users_url b) # log @ si\<rparr>"
  have a1: "authenticate env b = (r, b1)" using a by (simp add: b1_def)
  have f1: "filter is_fetch_call (effects b1) = filter is_fetch_call (effects b)"
    using l s by (auto simp add: b1_def)
  show ?thesis
  proof (cases r)
    case (Inl e)
    have c: "client b1 = None" using k Inl assms by (simp add: b1_def)
    note rr = run_raises[OF a1[unfolded Inl], of fuel]
    have n: "Enter_fetch_listings d \<notin> set (drop (length (effects b)) (effects (snd (run env fuel b))))" for d
      using l s by (auto simp add: rr b1_def alert_events_def split: post_result.splits)
    show ?thesis
      using f1 c n by (simp add: a1 Inl rr alert_events_filter)
  next
    case (Inr u)
    have c: "client b1 \<noteq> None" using k Inr by (simp add: b1_def)
    define b2 where "b2 = b1\<lparr>effects := effects b1 @
        alert_events env (webhook b1) (effects b1) (green_circle @ '' Sorare Bot Started Successfully'') @
        [Print (green_circle @ '' Bot is running...'')]\<rparr>"
    have rr: "run env fuel b = (Running, snd (main_loop env fuel b2))"
      using run_returns[OF a1[unfolded Inr], of fuel] by (simp add: b2_def)
    obtain tr and ds :: "nat list" where m: "main_loop env fuel b2 = (None, b2\<lparr>effects := effects b2 @ tr\<rparr>)"
      and f: "filter is_fetch_call tr = replicate fuel (Enter_fetch_listings (client b2))"
      using main_loop_shape[of env fuel b2] by blast
    have c2: "client b2 = client b1" by (simp add: b2_def)
    have e2: "effects (snd (run env fuel b)) = effects b1 @
        (alert_events env (webhook b1) (effects b1) (green_circle @ '' Sorare Bot Started Successfully'') @
        [Print (green_circle @ '' Bot is running...'')]) @ tr"
      unfolding rr m by (simp add: b2_def)
    have n: "d = client b1" if "Enter_fetch_listings d \<in> set (drop (length (effects b)) (effects (snd (run env fuel b))))" for d
    proof -
      have "Enter_fetch_listings d \<in> set tr"
        using that l s by (auto simp add: e2 b1_def alert_events_def split: post_result.splits)
      then have "Enter_fetch_listings d \<in> set (filter is_fetch_call tr)" by simp
      then show ?thesis unfolding f c2 by auto
    qed
    have g: "\<forall>d. Enter_fetch_listings d \<in> set (drop (length (effects b)) (effects (snd (run env fuel b)))) \<longrightarrow>
            d \<noteq> None \<and> fst (authenticate env b) = Inr ()"
      using n c by (auto simp add: a1 Inr)
    have "filter is_fetch_call (effects (snd (run env fuel b))) =
         filter is_fetch_call (effects b) @ replicate fuel (Enter_fetch_listings (client b1))"
      using f1 f by (simp add: e2 alert_events_filter c2)
    moreover have "client (snd (run env fuel b)) = client b1"
      by (simp add: rr m c2)
    moreover have "take (length (effects b1)) (effects (snd (run env fuel b))) = effects b1"
      by (simp add: e2)
    ultimately show ?thesis
      using f1 c g by (simp add: a1 Inr)
  qed
qed

text \<open>
  The theorem for two cycles, in the scenario where everything works and in scenario B.
\<close>

theorem session_iff_authenticated_witness:
  "client scenario_bot = None
   \<and> fst (authenticate scenario_env scenario_bot) = Inr ()
   \<and> client (snd (run scenario_env 2 scenario_bot)) = Some (Session ''Bearer tok'' ''sorare-bot'')
   \<and> filter is_fetch_call (effects (snd (run scenario_env 2 scenario_bot))) =
       [Enter_fetch_listings (Some (Session ''Bearer tok'' ''sorare-bot'')),
        Enter_fetch_listings (Some (Session ''Bearer tok'' ''sorare-bot''))]
   \<and> fst (authenticate bad_credentials scenario_bot) \<noteq> Inr ()
   \<and> client (snd (run bad_credentials 2 scenario_bot)) = None
   \<and> filter is_fetch_call (effects (snd (run bad_credentials 2 scenario_bot))) = []"
proof -
  have c: "client scenario_bot = None" by (simp add: scenario_defs)
  note ok = session_iff_authenticated[OF c, of scenario_env 2]
  note bad = session_iff_authenticated[OF c, of bad_credentials 2]
  have e: "effects scenario_bot = []" by (simp add: scenario_defs)
  show ?thesis
    using ok bad c
    by (simp add: authenticate_scenario_env authenticate_bad_credentials numeral_2_eq_2 e)
qed

end
